theory Spec2Isabelle
  imports Complex_Main
begin

section \<open>Strings of the JavaScript runtime\<close>

text \<open>
  A JavaScript string is modelled as a \<open>string\<close>, one \<open>char\<close> per code unit.
  \<open>string_of_nat\<close> is the decimal rendering that a template literal gives to a
  non-negative integer number (one below \<open>10^21\<close>, as every number of seconds, bytes or
  days in this program is).
\<close>

definition digit_char :: "nat \<Rightarrow> char" where
  "digit_char d = ''0123456789'' ! d"

function string_of_nat :: "nat \<Rightarrow> string" where
  "string_of_nat n =
     (if n < 10 then [digit_char n]
      else string_of_nat (n div 10) @ [digit_char (n mod 10)])"
  by pat_completeness auto
termination
  by (relation "measure id") auto

declare string_of_nat.simps [simp del]

text \<open>Rendering of an integer number: a minus sign in front of a negative one.\<close>

definition string_of_int :: "int \<Rightarrow> string" where
  "string_of_int i = (if i < 0 then CHR ''-'' # string_of_nat (nat (- i)) else string_of_nat (nat i))"

section \<open>Relative time (\<open>getRelativeTimeString\<close>, server/routes.ts)\<close>

text \<open>
  The function reads the clock and the date; its argument here is
  \<open>diffInSeconds = Math.floor((now - date) / 1000)\<close>, an integer that is negative for a
  date in the future. \<open>Math.floor (a / b)\<close> on integers is \<open>div\<close>.
\<close>

definition getRelativeTimeString :: "int \<Rightarrow> string" where
  "getRelativeTimeString diffInSeconds =
     (if diffInSeconds < 60 then ''just now''
      else let diffInMinutes = diffInSeconds div 60 in
        if diffInMinutes < 60
        then string_of_int diffInMinutes @ '' minute'' @ (if diffInMinutes > 1 then ''s'' else '''') @ '' ago''
        else let diffInHours = diffInMinutes div 60 in
          if diffInHours < 24
          then string_of_int diffInHours @ '' hour'' @ (if diffInHours > 1 then ''s'' else '''') @ '' ago''
          else let diffInDays = diffInHours div 24 in
            if diffInDays < 30
            then string_of_int diffInDays @ '' day'' @ (if diffInDays > 1 then ''s'' else '''') @ '' ago''
            else let diffInMonths = diffInDays div 30 in
              if diffInMonths < 12
              then string_of_int diffInMonths @ '' month'' @ (if diffInMonths > 1 then ''s'' else '''') @ '' ago''
              else let diffInYears = diffInMonths div 12 in
                string_of_int diffInYears @ '' year'' @ (if diffInYears > 1 then ''s'' else '''') @ '' ago'')"

text \<open>
  The algorithm in the words of the specification: thresholds on the elapsed seconds
  themselves, and the plural "s" when the number is not 1.
\<close>

definition ago_spec :: "int \<Rightarrow> string \<Rightarrow> string" where
  "ago_spec N unit = string_of_int N @ '' '' @ unit @ (if N \<noteq> 1 then ''s'' else '''') @ '' ago''"

definition relative_time_spec :: "int \<Rightarrow> string" where
  "relative_time_spec s =
     (if s < 60 then ''just now''
      else if s < 3600 then ago_spec (s div 60) ''minute''
      else if s < 86400 then ago_spec (s div 3600) ''hour''
      else if s < 30 * 86400 then ago_spec (s div 86400) ''day''
      else if (s div 86400) div 30 < 12 then ago_spec ((s div 86400) div 30) ''month''
      else ago_spec (((s div 86400) div 30) div 12) ''year'')"

section \<open>String operations of the JavaScript runtime\<close>

text \<open>\<open>s.startsWith(p)\<close>, \<open>s.includes(sub)\<close> and \<open>s.endsWith(suf)\<close>.\<close>

fun startsWith :: "string \<Rightarrow> string \<Rightarrow> bool" where
  "startsWith s [] = True"
| "startsWith [] (p # ps) = False"
| "startsWith (c # cs) (p # ps) = (c = p \<and> startsWith cs ps)"

fun includes_str :: "string \<Rightarrow> string \<Rightarrow> bool" where
  "includes_str [] sub = (sub = [])"
| "includes_str (c # cs) sub = (startsWith (c # cs) sub \<or> includes_str cs sub)"

definition endsWith :: "string \<Rightarrow> string \<Rightarrow> bool" where
  "endsWith s suf = startsWith (rev s) (rev suf)"

text \<open>
  \<open>s.split(sep)\<close> for a one-character separator: the pieces between the separators,
  the empty ones included; \<open>''''.split(sep)\<close> is the list of one empty string.
\<close>

fun split_on :: "char \<Rightarrow> string \<Rightarrow> string list" where
  "split_on sep [] = [[]]"
| "split_on sep (c # cs) =
     (if c = sep then [] # split_on sep cs
      else (case split_on sep cs of [] \<Rightarrow> [[c]] | w # ws \<Rightarrow> (c # w) # ws))"

text \<open>\<open>xs[i]\<close>: \<open>None\<close> stands for \<open>undefined\<close>, the value of a read out of range.\<close>

definition nth_opt :: "'a list \<Rightarrow> nat \<Rightarrow> 'a option" where
  "nth_opt xs i = (if i < length xs then Some (xs ! i) else None)"

text \<open>\<open>xs.join(sep)\<close>.\<close>

fun join :: "string \<Rightarrow> string list \<Rightarrow> string" where
  "join sep [] = []"
| "join sep [x] = x"
| "join sep (x # y # ys) = x @ sep @ join sep (y # ys)"

text \<open>
  The letters A to Z folded to lower case, every other character unchanged: the
  comparison that the \<open>i\<close> flag of a regular expression makes on ASCII pattern characters.
\<close>

definition ascii_lower :: "char \<Rightarrow> char" where
  "ascii_lower c =
     (case map_of (zip ''ABCDEFGHIJKLMNOPQRSTUVWXYZ'' ''abcdefghijklmnopqrstuvwxyz'') c of
        Some l \<Rightarrow> l
      | None \<Rightarrow> c)"

text \<open>A value interpolated into a template literal when it may be \<open>undefined\<close> or \<open>null\<close>.\<close>

definition show_undefined :: "string option \<Rightarrow> string" where
  "show_undefined v = (case v of None \<Rightarrow> ''undefined'' | Some s \<Rightarrow> s)"

definition show_null :: "string option \<Rightarrow> string" where
  "show_null v = (case v of None \<Rightarrow> ''null'' | Some s \<Rightarrow> s)"

text \<open>\<open>v || d\<close> for a string \<open>v\<close> that may be absent: absent and empty are falsy.\<close>

definition or_else :: "string option \<Rightarrow> string \<Rightarrow> string" where
  "or_else v d = (case v of None \<Rightarrow> d | Some s \<Rightarrow> if s = [] then d else s)"

section \<open>Data model (shared/schema.ts, server/storage.ts)\<close>

record language_entry =
  name :: string
  percentage :: real
  color :: string

text \<open>\<open>month = None\<close> is the \<open>undefined\<close> of a month index outside the table.\<close>

record commit_bucket =
  month :: "string option"
  count :: nat

datatype level = High | Medium | Low

record complex_file =
  file_path :: string
  complexity :: nat
  file_level :: level

datatype dependency_status = UpToDate | UpdateAvailable | Outdated

record dependency =
  dep_name :: string
  version :: string
  status :: dependency_status

text \<open>
  The row of the \<open>repositories\<close> table. \<open>description\<close> and \<open>language\<close> are nullable
  columns: \<open>None\<close> is \<open>null\<close>. Numbers of the runtime are modelled as reals and
  integers; the rounding of floating-point arithmetic is outside the model.
\<close>

record repository =
  repo_id :: string
  fullName :: string
  description :: "string option"
  ownerAvatar :: string
  stars :: string
  forks :: string
  openIssues :: string
  language :: "string option"
  createdAt :: string
  lastUpdated :: string
  codeQuality :: int
  codeCoverage :: int
  commitFrequency :: string
  activeContributors :: int
  languages :: "language_entry list"
  commitActivity :: "commit_bucket list"
  complexFiles :: "complex_file list"
  dependencies :: "dependency list"

text \<open>
  \<open>MemStorage.repositories\<close>, a \<open>Map\<close> from id to row: the entries in insertion order.
  \<open>Map.set\<close> replaces the value of a key that is present, in place, and appends a new key.
\<close>

type_synonym storage = "(string \<times> repository) list"

fun map_set :: "('k \<times> 'v) list \<Rightarrow> 'k \<Rightarrow> 'v \<Rightarrow> ('k \<times> 'v) list" where
  "map_set [] k v = [(k, v)]"
| "map_set ((k', v') # kvs) k v = (if k' = k then (k, v) # kvs else (k', v') # map_set kvs k v)"

definition getRepository :: "storage \<Rightarrow> string \<Rightarrow> repository option" where
  "getRepository st i = map_of st i"

definition getRepositoryByFullName :: "storage \<Rightarrow> string \<Rightarrow> repository option" where
  "getRepositoryByFullName st fn = find (\<lambda>repo. fullName repo = fn) (map snd st)"

definition createRepository :: "storage \<Rightarrow> repository \<Rightarrow> storage \<times> repository" where
  "createRepository st repo = (map_set st (repo_id repo) repo, repo)"

section \<open>Runtime and Metadata Provider\<close>

text \<open>
  What the code reads from the JavaScript runtime and from the validation library, taken
  as parameters: the clock, the local calendar, the locale's date formats, the random
  number generator, \<open>Number.toFixed(1)\<close>, \<open>String.toLowerCase\<close> and the URL check of
  \<open>z.string().url()\<close>. \<open>random env k\<close> is the \<open>k\<close>-th draw of \<open>Math.random\<close> in a call,
  \<open>monthWeeksBack env i\<close> the month index of the day \<open>7 * i\<close> days before today.
\<close>

record env =
  now :: int
  parseDate :: "string \<Rightarrow> int"
  getMonth :: "int \<Rightarrow> nat"
  monthWeeksBack :: "nat \<Rightarrow> nat"
  toLongDate :: "string \<Rightarrow> string"
  today :: string
  random :: "nat \<Rightarrow> real"
  toFixed1 :: "real \<Rightarrow> string"
  toLowerCase :: "string \<Rightarrow> string"
  isUrl :: "string \<Rightarrow> bool"

text \<open>
  A rejected \<open>axios\<close> request: with a response (its status and the \<open>message\<close> of its
  body, when it has one) or without.
\<close>

datatype axios_error = HttpError nat "string option" | NoResponse

record repo_info =
  info_id :: nat
  full_name :: string
  info_description :: "string option"
  avatar_url :: string
  stargazers_count :: nat
  forks_count :: nat
  open_issues_count :: nat
  info_language :: "string option"
  created_at :: string
  updated_at :: string
  languages_url :: string

record week_data =
  week :: int
  total :: nat

text \<open>
  The body of the commit-activity response: an array of weekly buckets, a falsy value
  (\<open>null\<close>, an empty body), or another truthy value that is no array (the empty object
  that the provider sends while it is still computing the statistics).
\<close>

datatype stats_payload = Weeks "week_data list" | Falsy | TruthyNonArray

record tree_item =
  item_type :: string
  path :: string

text \<open>
  The provider, one function per endpoint, from the request's URL. \<open>get_file\<close> is the
  body of the sampler's \<open>try\<close> block, the request and the base64 decoding of its answer:
  \<open>None\<close> when either throws.
\<close>

record github =
  get_repo :: "string \<Rightarrow> axios_error + repo_info"
  get_languages :: "string \<Rightarrow> axios_error + (string \<times> nat) list"
  get_commit_activity :: "string \<Rightarrow> axios_error + stats_payload"
  get_tree :: "string \<Rightarrow> axios_error + tree_item list"
  get_file :: "string \<Rightarrow> string option"

section \<open>Ingestion (\<open>fetchRepositoryData\<close>, server/routes.ts)\<close>

subsection \<open>Languages\<close>

text \<open>\<open>Object.values(languagesData).forEach(bytes => { totalBytes += bytes })\<close>.\<close>

definition totalBytes :: "(string \<times> nat) list \<Rightarrow> nat" where
  "totalBytes languagesData = foldl (\<lambda>acc bytes. acc + bytes) 0 (map snd languagesData)"

definition languageColors :: "(string \<times> string) list" where
  "languageColors =
     [(''JavaScript'', ''#f1e05a''), (''TypeScript'', ''#3178c6''), (''HTML'', ''#e34c26''),
      (''CSS'', ''#563d7c''), (''Python'', ''#3572A5''), (''Java'', ''#b07219''),
      (''Go'', ''#00ADD8''), (''Rust'', ''#dea584''), (''C'', ''#555555''),
      (''C++'', ''#f34b7d''), (''C#'', ''#178600'')]"

text \<open>\<open>totalBytes || 1\<close>: the divisor of the percentages.\<close>

definition divisor :: "nat \<Rightarrow> nat" where
  "divisor t = (if t = 0 then 1 else t)"

definition languageEntry :: "nat \<Rightarrow> string \<times> nat \<Rightarrow> language_entry" where
  "languageEntry t entry =
     \<lparr> name = fst entry,
       percentage = (real (snd entry) / real (divisor t)) * 100,
       color = (case map_of languageColors (fst entry) of Some c \<Rightarrow> c | None \<Rightarrow> ''#808080'') \<rparr>"

definition languagesOf :: "(string \<times> nat) list \<Rightarrow> language_entry list" where
  "languagesOf languagesData = map (languageEntry (totalBytes languagesData)) languagesData"

subsection \<open>Commit activity\<close>

definition months :: "string list" where
  "months = [''Jan'', ''Feb'', ''Mar'', ''Apr'', ''May'', ''Jun'', ''Jul'', ''Aug'', ''Sep'', ''Oct'', ''Nov'', ''Dec'']"

text \<open>\<open>xs.slice(-n)\<close>: the last \<open>n\<close> elements, all of them when there are fewer.\<close>

definition slice_last :: "nat \<Rightarrow> 'a list \<Rightarrow> 'a list" where
  "slice_last n xs = drop (length xs - n) xs"

text \<open>\<open>commitActivityResponse.data || []\<close>.\<close>

definition commitDataOf :: "stats_payload \<Rightarrow> stats_payload" where
  "commitDataOf d = (case d of Falsy \<Rightarrow> Weeks [] | _ \<Rightarrow> d)"

definition commitActivityOf :: "env \<Rightarrow> stats_payload \<Rightarrow> commit_bucket list" where
  "commitActivityOf e commitData =
     (case commitData of
        Weeks ws \<Rightarrow>
          map (\<lambda>weekData. \<lparr> month = nth_opt months (getMonth e (week weekData * 1000)),
                            count = total weekData \<rparr>)
              (slice_last 7 ws)
      | _ \<Rightarrow>
          map (\<lambda>index. \<lparr> month = nth_opt months (monthWeeksBack e index), count = 0 \<rparr>) [0..<7])"

text \<open>The mean of the last 12 weekly totals, and \<open>Math.round\<close> of it.\<close>

definition averageWeeklyCommits :: "stats_payload \<Rightarrow> real" where
  "averageWeeklyCommits commitData =
     (case commitData of
        Weeks ws \<Rightarrow>
          real (foldl (\<lambda>sum w. sum + total w) 0 (slice_last 12 ws))
            / real (divisor (min (length ws) 12))
      | _ \<Rightarrow> 0)"

definition commitFrequencyOf :: "stats_payload \<Rightarrow> string" where
  "commitFrequencyOf commitData = string_of_int \<lfloor>averageWeeklyCommits commitData + 1 / 2\<rfloor> @ ''/week''"

subsection \<open>Magnitudes\<close>

definition formatNumber :: "env \<Rightarrow> nat \<Rightarrow> string" where
  "formatNumber e num =
     (if num \<ge> 1000000 then toFixed1 e (real num / 1000000) @ ''M''
      else if num \<ge> 1000 then toFixed1 e (real num / 1000) @ ''k''
      else string_of_nat num)"

subsection \<open>The record\<close>

definition repositoryData :: "env \<Rightarrow> string \<Rightarrow> repo_info \<Rightarrow> (string \<times> nat) list \<Rightarrow> stats_payload \<Rightarrow> repository" where
  "repositoryData e repo repoInfo languagesData commitData =
     \<lparr> repo_id = string_of_nat (info_id repoInfo),
       fullName = full_name repoInfo,
       description =
         Some (or_else (info_description repoInfo)
                 (''A '' @ show_null (info_language repoInfo) @ '' repository'')),
       ownerAvatar = avatar_url repoInfo,
       stars = formatNumber e (stargazers_count repoInfo),
       forks = formatNumber e (forks_count repoInfo),
       openIssues = formatNumber e (open_issues_count repoInfo),
       language = Some (or_else (info_language repoInfo) ''Unknown''),
       createdAt = toLongDate e (created_at repoInfo),
       lastUpdated = getRelativeTimeString ((now e - parseDate e (updated_at repoInfo)) div 1000),
       codeQuality = \<lfloor>70 + random e 0 * 25\<rfloor>,
       codeCoverage = \<lfloor>60 + random e 1 * 30\<rfloor>,
       commitFrequency = commitFrequencyOf commitData,
       activeContributors = \<lfloor>10 + random e 2 * 490\<rfloor>,
       languages = languagesOf languagesData,
       commitActivity = commitActivityOf e commitData,
       complexFiles =
         [\<lparr> file_path = ''src/core/'' @ repo @ ''Core.js'', complexity = 85, file_level = High \<rparr>,
          \<lparr> file_path = ''src/components/'' @ repo @ ''Component.js'', complexity = 65, file_level = Medium \<rparr>,
          \<lparr> file_path = ''src/utils/helpers.js'', complexity = 45, file_level = Low \<rparr>],
       dependencies =
         [\<lparr> dep_name = ''react'', version = ''^18.2.0'', status = UpToDate \<rparr>,
          \<lparr> dep_name = ''lodash'', version = ''^4.17.21'', status = UpToDate \<rparr>,
          \<lparr> dep_name = ''axios'', version = ''^0.21.1'', status = UpdateAvailable \<rparr>] \<rparr>"

text \<open>
  The three requests, in sequence; the first that is rejected ends the call with its
  error. The second component counts the requests issued.
\<close>

definition fetchRepositoryData :: "env \<Rightarrow> github \<Rightarrow> string \<Rightarrow> string \<Rightarrow> (axios_error + repository) \<times> nat" where
  "fetchRepositoryData e gh owner repo =
     (case get_repo gh (''https://api.github.com/repos/'' @ owner @ ''/'' @ repo) of
        Inl err \<Rightarrow> (Inl err, 1)
      | Inr repoInfo \<Rightarrow>
          (case get_languages gh (languages_url repoInfo) of
             Inl err \<Rightarrow> (Inl err, 2)
           | Inr languagesData \<Rightarrow>
               (case get_commit_activity gh
                       (''https://api.github.com/repos/'' @ owner @ ''/'' @ repo @ ''/stats/commit_activity'') of
                  Inl err \<Rightarrow> (Inl err, 3)
                | Inr d \<Rightarrow> (Inr (repositoryData e repo repoInfo languagesData (commitDataOf d)), 3))))"

section \<open>The \<open>/api/analyze\<close> handler\<close>

datatype 'a response = Ok 'a | Failure nat string

text \<open>\<open>url.replace(/\/$/, '''')\<close>: one trailing slash removed.\<close>

definition stripTrailingSlash :: "string \<Rightarrow> string" where
  "stripTrailingSlash url = (if url \<noteq> [] \<and> last url = CHR ''/'' then butlast url else url)"

text \<open>
  \<open>urlParts[urlParts.length - 2]\<close> and \<open>urlParts[urlParts.length - 1]\<close>; the first is
  \<open>undefined\<close> when the URL has no slash.
\<close>

definition ownerAndRepo :: "string \<Rightarrow> string option \<times> string option" where
  "ownerAndRepo url =
     (let urlParts = split_on CHR ''/'' (stripTrailingSlash url); n = length urlParts
      in ((if 2 \<le> n then nth_opt urlParts (n - 2) else None), nth_opt urlParts (n - 1)))"

text \<open>The \<open>catch\<close> of the handlers for a rejected request to the provider.\<close>

definition axiosFailure :: "axios_error \<Rightarrow> string \<Rightarrow> 'a response" where
  "axiosFailure err generic =
     (case err of
        HttpError st msg \<Rightarrow>
          Failure st (''GitHub API error: '' @ or_else msg ''Unknown error'')
      | NoResponse \<Rightarrow> Failure 500 generic)"

definition invalidUrl :: "repository response" where
  "invalidUrl = Failure 400 ''Invalid GitHub repository URL. Format should be: https://github.com/owner/repo''"

text \<open>
  The handler, from the \<open>url\<close> of the request body (\<open>None\<close>: no string there): its
  response, the cache after it, and the number of requests it made to the provider.
\<close>

definition analyze :: "env \<Rightarrow> github \<Rightarrow> storage \<Rightarrow> string option \<Rightarrow> repository response \<times> storage \<times> nat" where
  "analyze e gh st body_url =
     (case body_url of
        None \<Rightarrow> (Failure 400 ''Required'', st, 0)
      | Some url \<Rightarrow>
          if \<not> isUrl e url then (Failure 400 ''Invalid URL format'', st, 0)
          else if \<not> includes_str url ''github.com'' then (Failure 400 ''URL must be a GitHub repository'', st, 0)
          else
            (case ownerAndRepo url of
               (Some owner, Some repo) \<Rightarrow>
                 if owner = [] \<or> repo = [] then (invalidUrl, st, 0)
                 else
                   (case getRepositoryByFullName st (owner @ ''/'' @ repo) of
                      Some existingRepo \<Rightarrow> (Ok existingRepo, st, 0)
                    | None \<Rightarrow>
                        (case fetchRepositoryData e gh owner repo of
                           (Inl err, calls) \<Rightarrow> (axiosFailure err ''Failed to analyze repository'', st, calls)
                         | (Inr repoData, calls) \<Rightarrow>
                             (case createRepository st repoData of
                                (st', savedRepo) \<Rightarrow> (Ok savedRepo, st', calls))))
             | _ \<Rightarrow> (invalidUrl, st, 0)))"

section \<open>Document Generator (\<open>generateReadmeContent\<close>, server/routes.ts)\<close>

text \<open>
  The options of the request body. A flag that is absent takes the default \<open>true\<close> of the
  destructuring; one that is present counts by its truthiness. \<open>customSections\<close> absent
  is the empty list.
\<close>

record custom_section =
  title :: string
  content :: string

record readme_options =
  includeInstallation :: "bool option"
  includeUsage :: "bool option"
  includeContributing :: "bool option"
  includeLicense :: "bool option"
  customSections :: "custom_section list option"

definition flag :: "bool option \<Rightarrow> bool" where
  "flag v = (case v of None \<Rightarrow> True | Some b \<Rightarrow> b)"

definition sectionsOf :: "readme_options \<Rightarrow> custom_section list" where
  "sectionsOf options = (case customSections options of None \<Rightarrow> [] | Some cs \<Rightarrow> cs)"

text \<open>The exception of a method call on \<open>undefined\<close> or \<open>null\<close>.\<close>

datatype js_exception = TypeError

definition sq :: string where
  "sq = [CHR 0x27]"

text \<open>\<open>repository.fullName.split('/')[1]\<close>: \<open>undefined\<close> when the name has no slash.\<close>

definition repoNameOf :: "repository \<Rightarrow> string option" where
  "repoNameOf repository = nth_opt (split_on CHR ''/'' (fullName repository)) 1"

definition badges :: "repository \<Rightarrow> string" where
  "badges repository =
     ''![GitHub stars](https://img.shields.io/github/stars/'' @ fullName repository @ ''?style=social) ''
     @ ''![License](https://img.shields.io/github/license/'' @ fullName repository @ '') ''
     @ ''![Last commit](https://img.shields.io/github/last-commit/'' @ fullName repository @ '')\<newline>\<newline>''"

text \<open>\<open>repository.languages.forEach(lang => { content += ... })\<close>.\<close>

definition appendLanguages :: "env \<Rightarrow> string \<Rightarrow> language_entry list \<Rightarrow> string" where
  "appendLanguages e content0 langs =
     foldl (\<lambda>acc lang. acc @ ''- '' @ name lang @ '': '' @ toFixed1 e (percentage lang) @ ''%\<newline>'')
       content0 langs"

definition installCommand :: "string option \<Rightarrow> string" where
  "installCommand lang =
     (if lang = Some ''JavaScript'' \<or> lang = Some ''TypeScript'' then ''npm install\<newline>''
      else if lang = Some ''Python'' then ''pip install -r requirements.txt\<newline>''
      else if lang = Some ''Java'' then ''mvn install\<newline>''
      else ''# Install dependencies according to your package manager\<newline>'')"

definition installationBlock :: "repository \<Rightarrow> string" where
  "installationBlock repository =
     ''## Installation\<newline>\<newline>''
     @ ''```bash\<newline>''
     @ ''# Clone the repository\<newline>''
     @ ''git clone https://github.com/'' @ fullName repository @ ''.git\<newline>\<newline>''
     @ ''# Change directory\<newline>''
     @ ''cd '' @ show_undefined (repoNameOf repository) @ ''\<newline>\<newline>''
     @ ''# Install dependencies\<newline>''
     @ installCommand (language repository)
     @ ''```\<newline>\<newline>''"

text \<open>
  The example of the usage block. The three language branches call
  \<open>repoName.toLowerCase()\<close>, which throws when \<open>repoName\<close> is \<open>undefined\<close>.
\<close>

definition usageExample :: "env \<Rightarrow> repository \<Rightarrow> js_exception + string" where
  "usageExample e repository =
     (let lang = language repository; repoName = repoNameOf repository in
      if lang = Some ''JavaScript'' \<or> lang = Some ''TypeScript'' then
        (case repoName of
           None \<Rightarrow> Inl TypeError
         | Some n \<Rightarrow>
             Inr (''javascript\<newline>''
               @ ''import { '' @ n @ '' } from '' @ sq @ toLowerCase e n @ sq @ '';\<newline>\<newline>''
               @ ''// Initialize the component\<newline>''
               @ ''const '' @ toLowerCase e n @ '' = new '' @ n @ ''();\<newline>''
               @ toLowerCase e n @ ''.start();\<newline>''))
      else if lang = Some ''Python'' then
        (case repoName of
           None \<Rightarrow> Inl TypeError
         | Some n \<Rightarrow>
             Inr (''python\<newline>''
               @ ''from '' @ toLowerCase e n @ '' import '' @ n @ ''\<newline>\<newline>''
               @ ''# Initialize the component\<newline>''
               @ toLowerCase e n @ '' = '' @ n @ ''()\<newline>''
               @ toLowerCase e n @ ''.start()\<newline>''))
      else if lang = Some ''Java'' then
        (case repoName of
           None \<Rightarrow> Inl TypeError
         | Some n \<Rightarrow>
             Inr (''java\<newline>''
               @ ''import com.example.'' @ n @ '';\<newline>\<newline>''
               @ ''// Initialize the component\<newline>''
               @ n @ '' '' @ toLowerCase e n @ '' = new '' @ n @ ''();\<newline>''
               @ toLowerCase e n @ ''.start();\<newline>''))
      else Inr (''\<newline>// Example usage code for '' @ show_undefined repoName @ ''\<newline>''))"

definition usageBlock :: "env \<Rightarrow> repository \<Rightarrow> js_exception + string" where
  "usageBlock e repository =
     (case usageExample e repository of
        Inl ex \<Rightarrow> Inl ex
      | Inr example \<Rightarrow> Inr (''## Usage\<newline>\<newline>'' @ ''```'' @ example @ ''```\<newline>\<newline>''))"

definition contributingBlock :: string where
  "contributingBlock =
     ''## Contributing\<newline>\<newline>''
     @ ''Contributions are welcome! Please feel free to submit a Pull Request.\<newline>\<newline>''
     @ ''1. Fork the repository\<newline>''
     @ ''2. Create your feature branch (`git checkout -b feature/amazing-feature`)\<newline>''
     @ ''3. Commit your changes (`git commit -m 'Add some amazing feature'`)\<newline>''
     @ ''4. Push to the branch (`git push origin feature/amazing-feature`)\<newline>''
     @ ''5. Open a Pull Request\<newline>\<newline>''"

definition licenseBlock :: string where
  "licenseBlock =
     ''## License\<newline>\<newline>''
     @ ''This project is licensed under the MIT License - see the LICENSE file for details.\<newline>\<newline>''"

text \<open>\<open>customSections.forEach(section => { if (section.title && section.content) ... })\<close>.\<close>

definition appendCustomSections :: "string \<Rightarrow> custom_section list \<Rightarrow> string" where
  "appendCustomSections content0 sections =
     foldl (\<lambda>acc section.
              if title section \<noteq> [] \<and> content section \<noteq> []
              then acc @ ''## '' @ title section @ ''\<newline>\<newline>'' @ content section @ ''\<newline>\<newline>''
              else acc)
       content0 sections"

definition footer :: "env \<Rightarrow> string" where
  "footer e = ''---\<newline>\<newline>'' @ ''Generated by GitHub Repository Analyzer on '' @ today e @ ''\<newline>''"

text \<open>
  The function: \<open>content\<close> grows statement by statement, and the call ends with the
  exception of the first statement that throws (\<open>repository.description.toLowerCase()\<close>
  on an absent description, \<open>repoName.toLowerCase()\<close> on an absent second segment).
\<close>

definition generateReadmeContent :: "env \<Rightarrow> repository \<Rightarrow> readme_options \<Rightarrow> js_exception + string" where
  "generateReadmeContent e repository options =
     (let c = ''# '' @ show_undefined (repoNameOf repository) @ ''\<newline>\<newline>'';
          c = c @ show_null (description repository) @ ''\<newline>\<newline>'';
          c = c @ badges repository;
          c = c @ ''## Overview\<newline>\<newline>''
      in case description repository of
           None \<Rightarrow> Inl TypeError
         | Some d \<Rightarrow>
             (let c = c @ ''This repository contains a '' @ show_null (language repository)
                        @ '' project that '' @ toLowerCase e d @ ''.\<newline>\<newline>'';
                  c = c @ ''## Languages\<newline>\<newline>'';
                  c = appendLanguages e c (languages repository);
                  c = c @ ''\<newline>'';
                  c = (if flag (includeInstallation options) then c @ installationBlock repository else c)
              in case (if flag (includeUsage options) then usageBlock e repository else Inr []) of
                   Inl ex \<Rightarrow> Inl ex
                 | Inr usage \<Rightarrow>
                     (let c = c @ usage;
                          c = (if flag (includeContributing options) then c @ contributingBlock else c);
                          c = (if flag (includeLicense options) then c @ licenseBlock else c);
                          c = appendCustomSections c (sectionsOf options);
                          c = c @ footer e
                      in Inr c)))"

section \<open>Completion Provider (\<open>analyzeCode\<close>, server/services/openrouter.ts)\<close>

text \<open>
  The outcome of the request to the Completion Provider: fulfilled with the \<open>choices\<close> of
  the body (the texts of their messages; \<open>None\<close> when the field is missing), or
  rejected. What the \<open>try\<close> block throws is an \<open>axios\<close> error, with the \<open>error\<close> field
  of its response when it has a response, or a plain \<open>Error\<close>.
\<close>

datatype thrown = AxiosError "string option option" string | PlainError string

datatype post_result = Fulfilled "string list option" | Rejected thrown

datatype js_error = Error string

definition userPrompt :: "string \<Rightarrow> string \<Rightarrow> string \<Rightarrow> string" where
  "userPrompt directoryStructure codeContent filePath =
     ''I need you to analyze the following code file:\<newline>\<newline>Repository structure:\<newline>```\<newline>''
     @ directoryStructure @ ''\<newline>```\<newline>\<newline>'' @ codeContent
     @ ''\<newline>\<newline>Please provide a detailed analysis of '' @ filePath
     @ '' using the required formatting structure.''"

text \<open>The \<open>try\<close> block: the request, then the first choice or a throw.\<close>

definition completionTry :: "post_result \<Rightarrow> thrown + string" where
  "completionTry r =
     (case r of
        Rejected t \<Rightarrow> Inl t
      | Fulfilled choices \<Rightarrow>
          (case choices of
             Some (c # cs) \<Rightarrow> Inr c
           | _ \<Rightarrow> Inl (PlainError ''No response from OpenRouter API'')))"

text \<open>The \<open>catch\<close> block: what it throws in place of the error it caught.\<close>

definition completionCatch :: "thrown \<Rightarrow> js_error" where
  "completionCatch t =
     (case t of
        AxiosError (Some data_error) message \<Rightarrow>
          Error (''OpenRouter API error: '' @ or_else data_error message)
      | _ \<Rightarrow> Error ''Failed to analyze code with OpenRouter'')"

text \<open>
  \<open>post\<close> is the request, from the credential and the user prompt (the system prompt and
  the model are constants of the request).
\<close>

definition analyzeCode :: "string option \<Rightarrow> (string \<Rightarrow> string \<Rightarrow> post_result) \<Rightarrow> string \<Rightarrow> string \<Rightarrow> string \<Rightarrow> js_error + string" where
  "analyzeCode apiKey post directoryStructure codeContent filePath =
     (case apiKey of
        None \<Rightarrow> Inl (Error ''OpenRouter API key is not configured'')
      | Some k \<Rightarrow>
          if k = [] then Inl (Error ''OpenRouter API key is not configured'')
          else
            (case completionTry (post k (userPrompt directoryStructure codeContent filePath)) of
               Inr analysis \<Rightarrow> Inr analysis
             | Inl t \<Rightarrow> Inl (completionCatch t)))"

section \<open>Whole-repository sampling (the \<open>/api/analyze-repository-code\<close> handler)\<close>

definition importantFileExtensions :: "string list" where
  "importantFileExtensions =
     [''.js'', ''.ts'', ''.jsx'', ''.tsx'', ''.py'', ''.java'', ''.php'', ''.go'', ''.rb'', ''.c'', ''.cpp'']"

text \<open>\<open>path.match(/\.(min|bundle|compiled)\./i)\<close>.\<close>

definition matchesMinified :: "string \<Rightarrow> bool" where
  "matchesMinified p =
     (let l = map ascii_lower p
      in includes_str l ''.min.'' \<or> includes_str l ''.bundle.'' \<or> includes_str l ''.compiled.'')"

definition isCodeFile :: "tree_item \<Rightarrow> bool" where
  "isCodeFile item =
     (item_type item = ''blob''
      \<and> list_ex (\<lambda>ext. endsWith (path item) ext) importantFileExtensions
      \<and> \<not> includes_str (path item) ''node_modules/''
      \<and> \<not> includes_str (path item) ''vendor/''
      \<and> \<not> matchesMinified (path item))"

definition codeFilesOf :: "tree_item list \<Rightarrow> tree_item list" where
  "codeFilesOf tree = take 5 (filter isCodeFile tree)"

definition dirStructureOf :: "tree_item list \<Rightarrow> string" where
  "dirStructureOf tree =
     join ''\<newline>''
       (map (\<lambda>item. (if item_type item = ''tree'' then ''directory'' else ''file'') @ '': '' @ path item)
          (filter (\<lambda>item. item_type item = ''tree'' \<or> item_type item = ''blob'') tree))"

text \<open>What one fetched file adds to \<open>sampleCode\<close>.\<close>

definition fileSample :: "string \<Rightarrow> string \<Rightarrow> string" where
  "fileSample p fileContent =
     ''\<newline>File: '' @ p @ ''\<newline>```\<newline>''
     @ take 1000 fileContent @ (if length fileContent > 1000 then ''...'' else [])
     @ ''\<newline>```\<newline>''"

text \<open>The loop over \<open>codeFiles\<close>; a file whose \<open>try\<close> block throws adds nothing.\<close>

fun sampleLoop :: "(string \<Rightarrow> string option) \<Rightarrow> string \<Rightarrow> string \<Rightarrow> tree_item list \<Rightarrow> string" where
  "sampleLoop fetch base sampleCode [] = sampleCode"
| "sampleLoop fetch base sampleCode (file # files) =
     (case fetch (base @ path file) of
        Some fileContent \<Rightarrow> sampleLoop fetch base (sampleCode @ fileSample (path file) fileContent) files
      | None \<Rightarrow> sampleLoop fetch base sampleCode files)"

text \<open>
  The handler, from the \<open>repositoryId\<close> of the request body: the response carries
  \<open>fileName\<close> and \<open>analysis\<close>.
\<close>

definition analyzeRepositoryCode ::
  "github \<Rightarrow> string option \<Rightarrow> (string \<Rightarrow> string \<Rightarrow> post_result) \<Rightarrow> storage \<Rightarrow> string option \<Rightarrow> (string \<times> string) response" where
  "analyzeRepositoryCode gh apiKey post st body_id =
     (case body_id of
        None \<Rightarrow> Failure 400 ''Required''
      | Some repositoryId \<Rightarrow>
          if repositoryId = [] then Failure 400 ''Repository ID is required''
          else
            (case getRepository st repositoryId of
               None \<Rightarrow> Failure 404 ''Repository not found''
             | Some repository \<Rightarrow>
                 (let parts = split_on CHR ''/'' (fullName repository);
                      base = ''https://api.github.com/repos/'' @ show_undefined (nth_opt parts 0)
                               @ ''/'' @ show_undefined (nth_opt parts 1)
                  in case get_tree gh (base @ ''/git/trees/HEAD?recursive=1'') of
                       Inl err \<Rightarrow> axiosFailure err ''Failed to analyze repository''
                     | Inr tree \<Rightarrow>
                         (let sampleCode = sampleLoop (get_file gh) (base @ ''/contents/'') [] (codeFilesOf tree)
                          in case analyzeCode apiKey post (dirStructureOf tree) sampleCode ''entire repository'' of
                               Inl err \<Rightarrow> Failure 500 ''Failed to analyze repository''
                             | Inr analysis \<Rightarrow> Ok (fullName repository, analysis)))))"

section \<open>Example inputs\<close>

text \<open>A directory tree with six qualifying files among vendored, minified and other entries.\<close>

definition example_tree :: "tree_item list" where
  "example_tree =
     [\<lparr> item_type = ''tree'', path = ''src'' \<rparr>,
      \<lparr> item_type = ''blob'', path = ''src/a.js'' \<rparr>,
      \<lparr> item_type = ''blob'', path = ''node_modules/x.js'' \<rparr>,
      \<lparr> item_type = ''blob'', path = ''src/b.MIN.js'' \<rparr>,
      \<lparr> item_type = ''blob'', path = ''vendor/c.py'' \<rparr>,
      \<lparr> item_type = ''blob'', path = ''README.md'' \<rparr>,
      \<lparr> item_type = ''blob'', path = ''src/c.ts'' \<rparr>,
      \<lparr> item_type = ''blob'', path = ''d.py'' \<rparr>,
      \<lparr> item_type = ''blob'', path = ''e.go'' \<rparr>,
      \<lparr> item_type = ''blob'', path = ''f.rb'' \<rparr>,
      \<lparr> item_type = ''blob'', path = ''g.c'' \<rparr>]"

text \<open>A provider of file contents that fails for \<open>d.py\<close>.\<close>

definition example_get_file :: "string \<Rightarrow> string option" where
  "example_get_file u = (if endsWith u ''d.py'' then None else Some ''x = 1'')"

text \<open>
  A runtime: a fixed clock and calendar, a constant random draw, one-decimal formatting of
  a non-negative number by rounding half up, ASCII lower-casing, and a URL check that asks
  for the \<open>https\<close> scheme.
\<close>

definition example_env :: env where
  "example_env =
     \<lparr> now = 1700000000000,
       parseDate = (\<lambda>s. 1699999940000),
       getMonth = (\<lambda>t. 10),
       monthWeeksBack = (\<lambda>i. 10),
       toLongDate = (\<lambda>s. ''January 26, 2011''),
       today = ''11/14/2023'',
       random = (\<lambda>k. 1 / 2),
       toFixed1 = (\<lambda>x. string_of_int (\<lfloor>x * 10 + 1 / 2\<rfloor> div 10) @ ''.'' @ string_of_int (\<lfloor>x * 10 + 1 / 2\<rfloor> mod 10)),
       toLowerCase = map ascii_lower,
       isUrl = (\<lambda>u. startsWith u ''https://'') \<rparr>"

text \<open>
  A provider that knows one repository, under any spelling of its name in upper and
  lower case, and answers with the name as it is registered.
\<close>

definition example_info :: repo_info where
  "example_info =
     \<lparr> info_id = 1296269,
       full_name = ''octocat/Hello-World'',
       info_description = Some ''My first repository'',
       avatar_url = ''https://avatars.githubusercontent.com/u/583231'',
       stargazers_count = 2500,
       forks_count = 12,
       open_issues_count = 3,
       info_language = Some ''JavaScript'',
       created_at = ''2011-01-26T19:01:12Z'',
       updated_at = ''2023-11-14T22:12:20Z'',
       languages_url = ''https://api.github.com/repos/octocat/Hello-World/languages'' \<rparr>"

definition example_github :: github where
  "example_github =
     \<lparr> get_repo = (\<lambda>u. if map ascii_lower u = ''https://api.github.com/repos/octocat/hello-world''
                         then Inr example_info else Inl (HttpError 404 (Some ''Not Found''))),
       get_languages = (\<lambda>u. Inr [(''JavaScript'', 3), (''HTML'', 1)]),
       get_commit_activity = (\<lambda>u. Inr (Weeks [\<lparr> week = 1699142400, total = 4 \<rparr>, \<lparr> week = 1699747200, total = 2 \<rparr>])),
       get_tree = (\<lambda>u. Inr example_tree),
       get_file = example_get_file \<rparr>"

text \<open>The record that ingestion makes of it, and a cache that holds it.\<close>

definition example_repository :: repository where
  "example_repository =
     repositoryData example_env ''Hello-World'' example_info [(''JavaScript'', 3), (''HTML'', 1)]
       (Weeks [\<lparr> week = 1699142400, total = 4 \<rparr>, \<lparr> week = 1699747200, total = 2 \<rparr>])"

definition example_storage :: storage where
  "example_storage = [(''1296269'', example_repository)]"

definition example_post :: "string \<Rightarrow> string \<Rightarrow> post_result" where
  "example_post k u = Fulfilled (Some [''## SUMMARY''])"



section \<open>The layout of the generated document\<close>

text \<open>
  The parts of the document in the words of the specification: the heading, description,
  badges, overview and language list for a description \<open>d\<close>; the line of one language;
  the block of one custom section, \<open>## title\<close> and content; and a block that an option
  switches on.
\<close>

definition languageLine :: "env \<Rightarrow> language_entry \<Rightarrow> string" where
  "languageLine e lang = ''- '' @ name lang @ '': '' @ toFixed1 e (percentage lang) @ ''%\<newline>''"

definition frontMatter :: "env \<Rightarrow> repository \<Rightarrow> string \<Rightarrow> string" where
  "frontMatter e repository d =
     ''# '' @ show_undefined (repoNameOf repository) @ ''\<newline>\<newline>''
     @ d @ ''\<newline>\<newline>''
     @ badges repository
     @ ''## Overview\<newline>\<newline>''
     @ ''This repository contains a '' @ show_null (language repository)
     @ '' project that '' @ toLowerCase e d @ ''.\<newline>\<newline>''
     @ ''## Languages\<newline>\<newline>''
     @ concat (map (languageLine e) (languages repository))
     @ ''\<newline>''"

definition sectionBlock :: "custom_section \<Rightarrow> string" where
  "sectionBlock s = ''## '' @ title s @ ''\<newline>\<newline>'' @ content s @ ''\<newline>\<newline>''"

definition customBlocks :: "custom_section list \<Rightarrow> string" where
  "customBlocks sections = concat (map sectionBlock (filter (\<lambda>s. title s \<noteq> [] \<and> content s \<noteq> []) sections))"

definition optionalBlock :: "bool option \<Rightarrow> string \<Rightarrow> string" where
  "optionalBlock option block = (if flag option then block else [])"

text \<open>The languages whose usage example lower-cases the repository's short name.\<close>

definition templatedLanguage :: "string option \<Rightarrow> bool" where
  "templatedLanguage lang =
     (lang = Some ''JavaScript'' \<or> lang = Some ''TypeScript'' \<or> lang = Some ''Python'' \<or> lang = Some ''Java'')"

text \<open>Options and records for the examples.\<close>

definition default_options :: readme_options where
  "default_options =
     \<lparr> includeInstallation = None, includeUsage = None, includeContributing = None,
       includeLicense = None, customSections = None \<rparr>"

definition notes_options :: readme_options where
  "notes_options =
     \<lparr> includeInstallation = Some False, includeUsage = Some False, includeContributing = Some False,
       includeLicense = Some True,
       customSections = Some [\<lparr> title = ''Notes'', content = ''x'' \<rparr>,
                              \<lparr> title = '''', content = ''dropped'' \<rparr>,
                              \<lparr> title = ''More'', content = ''y'' \<rparr>] \<rparr>"

text \<open>The document expected for the example record under \<open>notes_options\<close>.\<close>

definition example_readme :: string where
  "example_readme =
     ''# Hello-World\<newline>\<newline>My first repository\<newline>\<newline>''
     @ ''![GitHub stars](https://img.shields.io/github/stars/octocat/Hello-World?style=social) ''
     @ ''![License](https://img.shields.io/github/license/octocat/Hello-World) ''
     @ ''![Last commit](https://img.shields.io/github/last-commit/octocat/Hello-World)\<newline>\<newline>''
     @ ''## Overview\<newline>\<newline>''
     @ ''This repository contains a JavaScript project that my first repository.\<newline>\<newline>''
     @ ''## Languages\<newline>\<newline>- JavaScript: 75.0%\<newline>- HTML: 25.0%\<newline>\<newline>''
     @ ''## License\<newline>\<newline>''
     @ ''This project is licensed under the MIT License - see the LICENSE file for details.\<newline>\<newline>''
     @ ''## Notes\<newline>\<newline>x\<newline>\<newline>## More\<newline>\<newline>y\<newline>\<newline>''
     @ ''---\<newline>\<newline>Generated by GitHub Repository Analyzer on 11/14/2023\<newline>''"

text \<open>A completion that answers with the prompt it was sent.\<close>

definition echo_post :: "string \<Rightarrow> string \<Rightarrow> post_result" where
  "echo_post k u = Fulfilled (Some [u])"

section \<open>Runs of requests to the cache\<close>

text \<open>
  A cache in which every record is stored under its own id, as \<open>createRepository\<close>
  stores it: the empty cache, and every cache that the handler makes of such a cache.
\<close>

definition cacheKeyed :: "storage \<Rightarrow> bool" where
  "cacheKeyed st = list_all (\<lambda>kv. fst kv = repo_id (snd kv)) st"

text \<open>
  A run of requests to \<open>/api/analyze\<close>, each with the runtime and the provider of its
  moment: the cache after the run.
\<close>

type_synonym request = "env \<times> github \<times> string option"

fun ingestAll :: "request list \<Rightarrow> storage \<Rightarrow> storage" where
  "ingestAll [] st = st"
| "ingestAll ((e, gh, body_url) # reqs) st = ingestAll reqs (fst (snd (analyze e gh st body_url)))"

text \<open>
  The requests of a run that fetch a record from the provider fetch records of other
  repositories than \<open>r\<close>: of another id and another \<open>fullName\<close>. (A request answered
  from the cache makes no request to the provider, and one that fails stores nothing.)
\<close>

fun otherRepositories :: "repository \<Rightarrow> request list \<Rightarrow> storage \<Rightarrow> bool" where
  "otherRepositories r [] st = True"
| "otherRepositories r ((e, gh, body_url) # reqs) st =
     (case analyze e gh st body_url of
        (Ok fetched, st2, n) \<Rightarrow>
          (n = 0 \<or> (repo_id fetched \<noteq> repo_id r \<and> fullName fetched \<noteq> fullName r))
          \<and> otherRepositories r reqs st2
      | (Failure code msg, st2, n) \<Rightarrow> otherRepositories r reqs st2)"

text \<open>
  A second repository of the example provider, and a runtime whose random draws differ
  from those of \<open>example_env\<close>.
\<close>

definition spoon_info :: repo_info where
  "spoon_info = example_info \<lparr> info_id := 1300192, full_name := ''octocat/Spoon-Knife'' \<rparr>"

definition spoon_github :: github where
  "spoon_github = example_github \<lparr> get_repo := (\<lambda>u. Inr spoon_info) \<rparr>"

definition spoon_repository :: repository where
  "spoon_repository =
     repositoryData example_env ''Spoon-Knife'' spoon_info [(''JavaScript'', 3), (''HTML'', 1)]
       (Weeks [\<lparr> week = 1699142400, total = 4 \<rparr>, \<lparr> week = 1699747200, total = 2 \<rparr>])"

definition later_env :: env where
  "later_env = example_env \<lparr> random := (\<lambda>k. 0) \<rparr>"

definition refetched_repository :: repository where
  "refetched_repository =
     repositoryData later_env ''Hello-World'' example_info [(''JavaScript'', 3), (''HTML'', 1)]
       (Weeks [\<lparr> week = 1699142400, total = 4 \<rparr>, \<lparr> week = 1699747200, total = 2 \<rparr>])"

section \<open>Texts that bring no heading of their own\<close>

text \<open>
  A text is plain when it has no two number signs in a row, the mark that opens a
  heading of the second level. The texts that the record, the options and the runtime
  put into a document are plain when each of them is, and no custom section has a title
  that begins with "Installation".
\<close>

definition plainText :: "string \<Rightarrow> bool" where
  "plainText t = (\<not> includes_str t ''##'')"




section \<open>Relative time: the source against the specification's algorithm\<close>

lemma div_div_int: "(s::int) div 60 div 60 = s div 3600" "(s::int) div 3600 div 24 = s div 86400"
  using zdiv_zmult2_eq [of 60 s 60] zdiv_zmult2_eq [of 24 s 3600] by simp_all
lemma ago_spec_ge1:
  "1 \<le> N \<Longrightarrow> string_of_int N @ (CHR '' '' # u) @ (if N > 1 then ''s'' else '''') @ '' ago'' = ago_spec N u"
  unfolding ago_spec_def by auto
lemma div_bounds_int:
  "((s::int) div 60 < 60) = (s < 3600)"
  "(s div 3600 < 24) = (s < 86400)"
  "(s div 86400 < 30) = (s < 30 * 86400)"
  by linarith+

lemma div_ge1_int:
  "\<not> (s::int) < 60 \<Longrightarrow> 1 \<le> s div 60"
  "\<not> s < 3600 \<Longrightarrow> 1 \<le> s div 3600"
  "\<not> s < 86400 \<Longrightarrow> 1 \<le> s div 86400"
  "\<not> (d::int) < 30 \<Longrightarrow> 1 \<le> d div 30"
  "\<not> (m::int) < 12 \<Longrightarrow> 1 \<le> m div 12"
  by linarith+

lemma rts_just_now: "s < 60 \<Longrightarrow> getRelativeTimeString s = ''just now''"
  by (simp only: getRelativeTimeString_def if_True)

lemma rts_minute:
  assumes "\<not> s < 60" "s < 3600"
  shows "getRelativeTimeString s = ago_spec (s div 60) ''minute''"
proof -
  have "getRelativeTimeString s =
      string_of_int (s div 60) @ '' minute'' @ (if s div 60 > 1 then ''s'' else '''') @ '' ago''"
    unfolding getRelativeTimeString_def Let_def div_bounds_int
    by (simp only: assms if_True if_False)
  also have "\<dots> = ago_spec (s div 60) ''minute''"
    by (rule ago_spec_ge1) (rule div_ge1_int(1) [OF assms(1)])
  finally show ?thesis .
qed

lemma rts_hour:
  assumes "\<not> s < 3600" "s < 86400"
  shows "getRelativeTimeString s = ago_spec (s div 3600) ''hour''"
proof -
  have 0: "\<not> s < 60" using assms(1) by simp
  have "getRelativeTimeString s =
      string_of_int (s div 3600) @ '' hour'' @ (if s div 3600 > 1 then ''s'' else '''') @ '' ago''"
    unfolding getRelativeTimeString_def Let_def div_div_int div_bounds_int
    by (simp only: 0 assms if_True if_False)
  also have "\<dots> = ago_spec (s div 3600) ''hour''"
    by (rule ago_spec_ge1) (rule div_ge1_int(2) [OF assms(1)])
  finally show ?thesis .
qed


lemma rts_day:
  assumes "\<not> s < 86400" "s < 30 * 86400"
  shows "getRelativeTimeString s = ago_spec (s div 86400) ''day''"
proof -
  have 0: "\<not> s < 60" "\<not> s < 3600" using assms(1) by simp_all
  have "getRelativeTimeString s =
      string_of_int (s div 86400) @ '' day'' @ (if s div 86400 > 1 then ''s'' else '''') @ '' ago''"
    unfolding getRelativeTimeString_def Let_def div_div_int div_bounds_int
    by (simp only: 0 assms if_True if_False)
  also have "\<dots> = ago_spec (s div 86400) ''day''"
    by (rule ago_spec_ge1) (rule div_ge1_int(3) [OF assms(1)])
  finally show ?thesis .
qed

lemma rts_month:
  assumes "\<not> s < 30 * 86400" "s div 86400 div 30 < 12"
  shows "getRelativeTimeString s = ago_spec (s div 86400 div 30) ''month''"
proof -
  have 0: "\<not> s < 60" "\<not> s < 3600" "\<not> s < 86400" using assms(1) by simp_all
  have 1: "\<not> s div 86400 < 30" unfolding div_bounds_int(3) by (rule assms(1))
  have "getRelativeTimeString s =
      string_of_int (s div 86400 div 30) @ '' month'' @ (if s div 86400 div 30 > 1 then ''s'' else '''') @ '' ago''"
    unfolding getRelativeTimeString_def Let_def div_div_int div_bounds_int
    by (simp only: 0 assms if_True if_False)
  also have "\<dots> = ago_spec (s div 86400 div 30) ''month''"
    by (rule ago_spec_ge1) (rule div_ge1_int(4) [OF 1])
  finally show ?thesis .
qed

lemma rts_year:
  assumes "\<not> s < 30 * 86400" "\<not> s div 86400 div 30 < 12"
  shows "getRelativeTimeString s = ago_spec (s div 86400 div 30 div 12) ''year''"
proof -
  have 0: "\<not> s < 60" "\<not> s < 3600" "\<not> s < 86400" using assms(1) by simp_all
  have "getRelativeTimeString s =
      string_of_int (s div 86400 div 30 div 12) @ '' year'' @ (if s div 86400 div 30 div 12 > 1 then ''s'' else '''') @ '' ago''"
    unfolding getRelativeTimeString_def Let_def div_div_int div_bounds_int
    by (simp only: 0 assms if_True if_False)
  also have "\<dots> = ago_spec (s div 86400 div 30 div 12) ''year''"
    by (rule ago_spec_ge1) (rule div_ge1_int(5) [OF assms(2)])
  finally show ?thesis .
qed

lemma rts_refines: "getRelativeTimeString s = relative_time_spec s"
proof -
  consider (now) "s < 60" | (minute) "\<not> s < 60" "s < 3600" | (hour) "\<not> s < 3600" "s < 86400"
    | (day) "\<not> s < 86400" "s < 30 * 86400"
    | (month) "\<not> s < 30 * 86400" "s div 86400 div 30 < 12"
    | (year) "\<not> s < 30 * 86400" "\<not> s div 86400 div 30 < 12"
    by blast
  then show ?thesis
  proof cases
    case now
    then show ?thesis unfolding relative_time_spec_def by (simp only: rts_just_now if_True)
  next
    case minute
    show ?thesis unfolding relative_time_spec_def rts_minute [OF minute]
      by (simp only: minute if_True if_False)
  next
    case hour
    from hour have 0: "\<not> s < 60" by simp
    show ?thesis unfolding relative_time_spec_def rts_hour [OF hour]
      by (simp only: hour 0 if_True if_False)
  next
    case day
    from day have 0: "\<not> s < 60" "\<not> s < 3600" by simp_all
    show ?thesis unfolding relative_time_spec_def rts_day [OF day]
      by (simp only: day 0 if_True if_False)
  next
    case month
    from month have 0: "\<not> s < 60" "\<not> s < 3600" "\<not> s < 86400" by simp_all
    show ?thesis unfolding relative_time_spec_def rts_month [OF month]
      by (simp only: month 0 if_True if_False)
  next
    case year
    from year have 0: "\<not> s < 60" "\<not> s < 3600" "\<not> s < 86400" by simp_all
    show ?thesis unfolding relative_time_spec_def rts_year [OF year]
      by (simp only: year 0 if_True if_False)
  qed
qed

text \<open>
  C4. For every elapsed-seconds value \<open>s\<close> (the non-negative ones in particular) the
  function returns what the specification's algorithm returns: "just now" below 60;
  minutes \<open>s div 60\<close> below 3600; hours below 86400; days below \<open>30 * 86400\<close>; months
  \<open>days div 30\<close> while they are below 12; years \<open>months div 12\<close> otherwise; the plural
  "s" exactly when the number is not 1. The five boundary examples hold.
\<close>

theorem getRelativeTimeString_spec:
  "getRelativeTimeString s = relative_time_spec s
   \<and> getRelativeTimeString 59 = ''just now''
   \<and> getRelativeTimeString 60 = ''1 minute ago''
   \<and> getRelativeTimeString 3599 = ''59 minutes ago''
   \<and> getRelativeTimeString 3600 = ''1 hour ago''
   \<and> getRelativeTimeString 86399 = ''23 hours ago''"
proof -
  have "getRelativeTimeString 59 = ''just now''"
    "getRelativeTimeString 60 = ''1 minute ago''"
    "getRelativeTimeString 3599 = ''59 minutes ago''"
    "getRelativeTimeString 3600 = ''1 hour ago''"
    "getRelativeTimeString 86399 = ''23 hours ago''"
    by (simp_all add: getRelativeTimeString_def string_of_int_def string_of_nat.simps digit_char_def)
  with rts_refines [of s] show ?thesis by blast
qed

theorem getRelativeTimeString_spec_witness:
  "getRelativeTimeString 2592000 = ''1 month ago'' \<and> getRelativeTimeString 63000000 = ''2 years ago''"
  using getRelativeTimeString_spec [of 2592000] getRelativeTimeString_spec [of 63000000]
  by (simp add: relative_time_spec_def ago_spec_def string_of_int_def string_of_nat.simps digit_char_def)
section \<open>String operations: what they decide\<close>

lemma startsWith_iff: "startsWith s p \<longleftrightarrow> (\<exists>r. s = p @ r)"
  by (induction s p rule: startsWith.induct) auto

lemma includes_str_iff: "includes_str s sub \<longleftrightarrow> (\<exists>a b. s = a @ sub @ b)"
proof (induction s)
  case Nil
  then show ?case by auto
next
  case (Cons c cs)
  show ?case
  proof
    assume "includes_str (c # cs) sub"
    then consider "startsWith (c # cs) sub" | "includes_str cs sub" by auto
    then show "\<exists>a b. c # cs = a @ sub @ b"
    proof cases
      case 1
      then obtain r where "c # cs = sub @ r" unfolding startsWith_iff by blast
      then have "c # cs = [] @ sub @ r" by simp
      then show ?thesis by blast
    next
      case 2
      then obtain a b where "cs = a @ sub @ b" using Cons.IH by blast
      then have "c # cs = (c # a) @ sub @ b" by simp
      then show ?thesis by blast
    qed
  next
    assume "\<exists>a b. c # cs = a @ sub @ b"
    then obtain a b where ab: "c # cs = a @ sub @ b" by blast
    show "includes_str (c # cs) sub"
    proof (cases a)
      case Nil
      with ab have "startsWith (c # cs) sub" unfolding startsWith_iff by auto
      then show ?thesis by simp
    next
      case (Cons x a')
      with ab have "cs = a' @ sub @ b" by simp
      then have "includes_str cs sub" using Cons.IH by blast
      then show ?thesis by simp
    qed
  qed
qed

lemma endsWith_iff: "endsWith s suf \<longleftrightarrow> (\<exists>a. s = a @ suf)"
proof
  assume "endsWith s suf"
  then obtain r where "rev s = rev suf @ r" unfolding endsWith_def startsWith_iff by blast
  then have "rev (rev s) = rev (rev suf @ r)" by simp
  then have "s = rev r @ suf" by simp
  then show "\<exists>a. s = a @ suf" by blast
next
  assume "\<exists>a. s = a @ suf"
  then obtain a where "s = a @ suf" by blast
  then have "rev s = rev suf @ rev a" by simp
  then show "endsWith s suf" unfolding endsWith_def startsWith_iff by blast
qed

section \<open>Whole-repository sampling\<close>

lemma sampleLoop_concat:
  "sampleLoop fetch base acc files =
     acc @ concat (map (\<lambda>f. case fetch (base @ path f) of
                               Some c \<Rightarrow> fileSample (path f) c | None \<Rightarrow> []) files)"
  by (induction files arbitrary: acc) (auto split: option.splits)

lemma sampleLoop_skip:
  "fetch (base @ path f) = None \<Longrightarrow>
   sampleLoop fetch base acc (xs @ f # ys) = sampleLoop fetch base acc (xs @ ys)"
  by (simp add: sampleLoop_concat)

lemma codeFilesOf_length: "length (codeFilesOf tree) \<le> 5"
  by (simp add: codeFilesOf_def)

lemma codeFilesOf_first:
  "\<exists>rest. filter isCodeFile tree = codeFilesOf tree @ rest
        \<and> (length (codeFilesOf tree) < 5 \<longrightarrow> rest = [])"
proof -
  have "filter isCodeFile tree = codeFilesOf tree @ drop 5 (filter isCodeFile tree)"
    by (simp add: codeFilesOf_def)
  moreover have "length (codeFilesOf tree) < 5 \<longrightarrow> drop 5 (filter isCodeFile tree) = []"
    by (auto simp: codeFilesOf_def)
  ultimately show ?thesis by blast
qed

lemma codeFilesOf_member:
  assumes "item \<in> set (codeFilesOf tree)"
  shows "item \<in> set tree" "item_type item = ''blob''"
    "\<exists>ext \<in> set importantFileExtensions. \<exists>a. path item = a @ ext"
    "\<not> (\<exists>a b. path item = a @ ''node_modules/'' @ b)"
    "\<not> (\<exists>a b. path item = a @ ''vendor/'' @ b)"
    "\<not> (\<exists>a b. map ascii_lower (path item) = a @ ''.min.'' @ b)"
    "\<not> (\<exists>a b. map ascii_lower (path item) = a @ ''.bundle.'' @ b)"
    "\<not> (\<exists>a b. map ascii_lower (path item) = a @ ''.compiled.'' @ b)"
proof -
  from assms have m: "item \<in> set (filter isCodeFile tree)"
    unfolding codeFilesOf_def by (rule in_set_takeD)
  then show "item \<in> set tree" by simp
  from m have c: "isCodeFile item" by simp
  then show "item_type item = ''blob''" by (simp add: isCodeFile_def)
  from c have "list_ex (\<lambda>ext. endsWith (path item) ext) importantFileExtensions"
    by (simp add: isCodeFile_def)
  then show "\<exists>ext \<in> set importantFileExtensions. \<exists>a. path item = a @ ext"
    unfolding list_ex_iff endsWith_iff .
  from c have "\<not> includes_str (path item) ''node_modules/''" by (simp add: isCodeFile_def)
  then show "\<not> (\<exists>a b. path item = a @ ''node_modules/'' @ b)" unfolding includes_str_iff .
  from c have "\<not> includes_str (path item) ''vendor/''" by (simp add: isCodeFile_def)
  then show "\<not> (\<exists>a b. path item = a @ ''vendor/'' @ b)" unfolding includes_str_iff .
  from c have mm: "\<not> matchesMinified (path item)" by (simp add: isCodeFile_def)
  then have "\<not> includes_str (map ascii_lower (path item)) ''.min.''"
    "\<not> includes_str (map ascii_lower (path item)) ''.bundle.''"
    "\<not> includes_str (map ascii_lower (path item)) ''.compiled.''"
    by (simp_all add: matchesMinified_def Let_def)
  then show "\<not> (\<exists>a b. map ascii_lower (path item) = a @ ''.min.'' @ b)"
    "\<not> (\<exists>a b. map ascii_lower (path item) = a @ ''.bundle.'' @ b)"
    "\<not> (\<exists>a b. map ascii_lower (path item) = a @ ''.compiled.'' @ b)"
    unfolding includes_str_iff by blast+
qed

lemma fileSample_short:
  "length c \<le> 1000 \<Longrightarrow> fileSample p c = ''\<newline>File: '' @ p @ ''\<newline>```\<newline>'' @ c @ ''\<newline>```\<newline>''"
  by (simp add: fileSample_def)

lemma fileSample_long:
  "length c > 1000 \<Longrightarrow>
   fileSample p c = ''\<newline>File: '' @ p @ ''\<newline>```\<newline>'' @ take 1000 c @ ''...'' @ ''\<newline>```\<newline>''"
  by (simp add: fileSample_def)

lemma analyzeRepositoryCode_total:
  assumes "rid \<noteq> []" "getRepository st rid = Some r"
    and "get_tree gh (''https://api.github.com/repos/'' @ show_undefined (nth_opt (split_on CHR ''/'' (fullName r)) 0)
            @ ''/'' @ show_undefined (nth_opt (split_on CHR ''/'' (fullName r)) 1)
            @ ''/git/trees/HEAD?recursive=1'') = Inr tree"
    and "k \<noteq> []" "\<And>u. post k u = Fulfilled (Some [a])"
  shows "analyzeRepositoryCode gh (Some k) post st (Some rid) = Ok (fullName r, a)"
  using assms by (simp add: analyzeRepositoryCode_def Let_def analyzeCode_def completionTry_def)

lemma analyzeRepositoryCode_eq:
  assumes "rid \<noteq> []" "getRepository st rid = Some r"
    and "base = ''https://api.github.com/repos/'' @ show_undefined (nth_opt (split_on CHR ''/'' (fullName r)) 0)
            @ ''/'' @ show_undefined (nth_opt (split_on CHR ''/'' (fullName r)) 1)"
    and "get_tree gh (base @ ''/git/trees/HEAD?recursive=1'') = Inr tree"
  shows "analyzeRepositoryCode gh apiKey post st (Some rid) =
     (case analyzeCode apiKey post (dirStructureOf tree)
             (concat (map (\<lambda>f. case get_file gh (base @ ''/contents/'' @ path f) of
                                   Some c \<Rightarrow> fileSample (path f) c | None \<Rightarrow> [])
                          (codeFilesOf tree)))
             ''entire repository'' of
        Inl err \<Rightarrow> Failure 500 ''Failed to analyze repository''
      | Inr analysis \<Rightarrow> Ok (fullName r, analysis))"
proof -
  have s: "sampleLoop (get_file gh) (base @ ''/contents/'') [] (codeFilesOf tree)
      = concat (map (\<lambda>f. case get_file gh (base @ ''/contents/'' @ path f) of
                                   Some c \<Rightarrow> fileSample (path f) c | None \<Rightarrow> [])
                          (codeFilesOf tree))"
    by (simp add: sampleLoop_concat)
  show ?thesis
    unfolding analyzeRepositoryCode_def Let_def
    using assms(1,2,4) s unfolding assms(3)
    by (simp split: sum.splits)
qed

lemma analyzeCode_first_choice:
  "k \<noteq> [] \<Longrightarrow> post k (userPrompt d c f) = Fulfilled (Some (a # others)) \<Longrightarrow>
   analyzeCode (Some k) post d c f = Inr a"
  by (simp add: analyzeCode_def completionTry_def)

lemma isCodeFile_iff:
  "isCodeFile item \<longleftrightarrow>
     item_type item = ''blob''
     \<and> (\<exists>ext \<in> set importantFileExtensions. \<exists>a. path item = a @ ext)
     \<and> \<not> (\<exists>a b. path item = a @ ''node_modules/'' @ b)
     \<and> \<not> (\<exists>a b. path item = a @ ''vendor/'' @ b)
     \<and> \<not> (\<exists>a b. map ascii_lower (path item) = a @ ''.min.'' @ b)
     \<and> \<not> (\<exists>a b. map ascii_lower (path item) = a @ ''.bundle.'' @ b)
     \<and> \<not> (\<exists>a b. map ascii_lower (path item) = a @ ''.compiled.'' @ b)"
  unfolding isCodeFile_def matchesMinified_def Let_def list_ex_iff endsWith_iff includes_str_iff
  by blast

lemma ascii_lower_letters:
  "map ascii_lower ''ABCDEFGHIJKLMNOPQRSTUVWXYZ'' = ''abcdefghijklmnopqrstuvwxyz''"
  by (simp add: ascii_lower_def)

lemma ascii_lower_other:
  assumes "c \<notin> set ''ABCDEFGHIJKLMNOPQRSTUVWXYZ''"
  shows "ascii_lower c = c"
proof -
  have "map_of (zip ''ABCDEFGHIJKLMNOPQRSTUVWXYZ'' ''abcdefghijklmnopqrstuvwxyz'') c = None"
    by (rule map_of_eq_None_iff [THEN iffD2]) (use assms in simp)
  then show ?thesis by (simp add: ascii_lower_def)
qed

text \<open>
  C7. Whole-repository sampling. The files selected are the first five qualifying entries
  of the tree in its order, all of them when there are fewer. An entry qualifies exactly
  when it is a blob whose path ends in an allow-listed extension and contains neither
  \<open>node_modules/\<close> nor \<open>vendor/\<close> nor, in any mix of upper and lower case, \<open>.min.\<close>,
  \<open>.bundle.\<close> or \<open>.compiled.\<close>. The sample of a file is its header and its content, cut to
  1000 characters and followed by \<open>...\<close> exactly when it is longer. The sample code is the
  samples of the selected files whose fetch succeeds, one after the other in order; a file
  whose fetch fails adds nothing and leaves the other samples as they are. The handler
  sends this sample code with the directory listing to the completion and answers with its
  analysis: the failure of a file's fetch never fails the request.
\<close>

theorem sampling_selects_and_truncates:
  "length (codeFilesOf tree) \<le> 5
   \<and> (\<exists>rest. filter isCodeFile tree = codeFilesOf tree @ rest
              \<and> (length (codeFilesOf tree) < 5 \<longrightarrow> rest = []))
   \<and> (isCodeFile entry \<longleftrightarrow>
          item_type entry = ''blob''
          \<and> (\<exists>ext \<in> set importantFileExtensions. \<exists>a. path entry = a @ ext)
          \<and> \<not> (\<exists>a b. path entry = a @ ''node_modules/'' @ b)
          \<and> \<not> (\<exists>a b. path entry = a @ ''vendor/'' @ b)
          \<and> \<not> (\<exists>a b. map ascii_lower (path entry) = a @ ''.min.'' @ b)
          \<and> \<not> (\<exists>a b. map ascii_lower (path entry) = a @ ''.bundle.'' @ b)
          \<and> \<not> (\<exists>a b. map ascii_lower (path entry) = a @ ''.compiled.'' @ b))
   \<and> importantFileExtensions
        = [''.js'', ''.ts'', ''.jsx'', ''.tsx'', ''.py'', ''.java'', ''.php'', ''.go'', ''.rb'', ''.c'', ''.cpp'']
   \<and> map ascii_lower ''ABCDEFGHIJKLMNOPQRSTUVWXYZ'' = ''abcdefghijklmnopqrstuvwxyz''
   \<and> (ch \<notin> set ''ABCDEFGHIJKLMNOPQRSTUVWXYZ'' \<longrightarrow> ascii_lower ch = ch)
   \<and> (\<forall>item \<in> set (codeFilesOf tree).
          item \<in> set tree \<and> item_type item = ''blob''
          \<and> (\<exists>ext \<in> set importantFileExtensions. \<exists>a. path item = a @ ext)
          \<and> \<not> (\<exists>a b. path item = a @ ''node_modules/'' @ b)
          \<and> \<not> (\<exists>a b. path item = a @ ''vendor/'' @ b)
          \<and> \<not> (\<exists>a b. map ascii_lower (path item) = a @ ''.min.'' @ b)
          \<and> \<not> (\<exists>a b. map ascii_lower (path item) = a @ ''.bundle.'' @ b)
          \<and> \<not> (\<exists>a b. map ascii_lower (path item) = a @ ''.compiled.'' @ b))
   \<and> (length c \<le> 1000 \<longrightarrow>
        fileSample p c = ''\<newline>File: '' @ p @ ''\<newline>```\<newline>'' @ c @ ''\<newline>```\<newline>'')
   \<and> (length c > 1000 \<longrightarrow>
        fileSample p c = ''\<newline>File: '' @ p @ ''\<newline>```\<newline>'' @ take 1000 c @ ''...'' @ ''\<newline>```\<newline>'')
   \<and> sampleLoop fetch base acc files
        = acc @ concat (map (\<lambda>file. case fetch (base @ path file) of
                                       Some fileContent \<Rightarrow> fileSample (path file) fileContent
                                     | None \<Rightarrow> [])
                          files)
   \<and> (fetch (base @ path f) = None \<longrightarrow>
        sampleLoop fetch base acc (xs @ f # ys) = sampleLoop fetch base acc (xs @ ys))
   \<and> (fetch (base @ path f) = Some c \<longrightarrow>
        sampleLoop fetch base acc (xs @ f # ys)
          = sampleLoop fetch base (sampleLoop fetch base acc xs @ fileSample (path f) c) ys)
   \<and> (rid \<noteq> [] \<and> getRepository st rid = Some r
        \<and> repos = ''https://api.github.com/repos/''
              @ show_undefined (nth_opt (split_on CHR ''/'' (fullName r)) 0) @ ''/''
              @ show_undefined (nth_opt (split_on CHR ''/'' (fullName r)) 1)
        \<and> get_tree gh (repos @ ''/git/trees/HEAD?recursive=1'') = Inr tree
      \<longrightarrow> analyzeRepositoryCode gh apiKey post st (Some rid)
          = (case analyzeCode apiKey post (dirStructureOf tree)
                    (concat (map (\<lambda>file. case get_file gh (repos @ ''/contents/'' @ path file) of
                                             Some fileContent \<Rightarrow> fileSample (path file) fileContent
                                           | None \<Rightarrow> [])
                                (codeFilesOf tree)))
                    ''entire repository'' of
               Inl err \<Rightarrow> Failure 500 ''Failed to analyze repository''
             | Inr analysis \<Rightarrow> Ok (fullName r, analysis)))
   \<and> (rid \<noteq> [] \<and> getRepository st rid = Some r
        \<and> repos = ''https://api.github.com/repos/''
              @ show_undefined (nth_opt (split_on CHR ''/'' (fullName r)) 0) @ ''/''
              @ show_undefined (nth_opt (split_on CHR ''/'' (fullName r)) 1)
        \<and> get_tree gh (repos @ ''/git/trees/HEAD?recursive=1'') = Inr tree
        \<and> k \<noteq> []
        \<and> post k (userPrompt (dirStructureOf tree)
                    (concat (map (\<lambda>file. case get_file gh (repos @ ''/contents/'' @ path file) of
                                             Some fileContent \<Rightarrow> fileSample (path file) fileContent
                                           | None \<Rightarrow> [])
                                (codeFilesOf tree)))
                    ''entire repository'') = Fulfilled (Some (a # others))
      \<longrightarrow> analyzeRepositoryCode gh (Some k) post st (Some rid) = Ok (fullName r, a))"
proof -
  have 1: "\<forall>item \<in> set (codeFilesOf tree).
          item \<in> set tree \<and> item_type item = ''blob''
          \<and> (\<exists>ext \<in> set importantFileExtensions. \<exists>a. path item = a @ ext)
          \<and> \<not> (\<exists>a b. path item = a @ ''node_modules/'' @ b)
          \<and> \<not> (\<exists>a b. path item = a @ ''vendor/'' @ b)
          \<and> \<not> (\<exists>a b. map ascii_lower (path item) = a @ ''.min.'' @ b)
          \<and> \<not> (\<exists>a b. map ascii_lower (path item) = a @ ''.bundle.'' @ b)
          \<and> \<not> (\<exists>a b. map ascii_lower (path item) = a @ ''.compiled.'' @ b)"
  proof (intro ballI)
    fix item
    assume m: "item \<in> set (codeFilesOf tree)"
    show "item \<in> set tree \<and> item_type item = ''blob''
          \<and> (\<exists>ext \<in> set importantFileExtensions. \<exists>a. path item = a @ ext)
          \<and> \<not> (\<exists>a b. path item = a @ ''node_modules/'' @ b)
          \<and> \<not> (\<exists>a b. path item = a @ ''vendor/'' @ b)
          \<and> \<not> (\<exists>a b. map ascii_lower (path item) = a @ ''.min.'' @ b)
          \<and> \<not> (\<exists>a b. map ascii_lower (path item) = a @ ''.bundle.'' @ b)
          \<and> \<not> (\<exists>a b. map ascii_lower (path item) = a @ ''.compiled.'' @ b)"
      by (intro conjI) (rule codeFilesOf_member [OF m])+
  qed
  have 2: "fetch (base @ path f) = Some c \<longrightarrow>
        sampleLoop fetch base acc (xs @ f # ys)
          = sampleLoop fetch base (sampleLoop fetch base acc xs @ fileSample (path f) c) ys"
    by (simp add: sampleLoop_concat)
  have 3: "rid \<noteq> [] \<and> getRepository st rid = Some r
        \<and> repos = ''https://api.github.com/repos/''
              @ show_undefined (nth_opt (split_on CHR ''/'' (fullName r)) 0) @ ''/''
              @ show_undefined (nth_opt (split_on CHR ''/'' (fullName r)) 1)
        \<and> get_tree gh (repos @ ''/git/trees/HEAD?recursive=1'') = Inr tree
      \<longrightarrow> analyzeRepositoryCode gh apiKey post st (Some rid)
          = (case analyzeCode apiKey post (dirStructureOf tree)
                    (concat (map (\<lambda>file. case get_file gh (repos @ ''/contents/'' @ path file) of
                                             Some fileContent \<Rightarrow> fileSample (path file) fileContent
                                           | None \<Rightarrow> [])
                                (codeFilesOf tree)))
                    ''entire repository'' of
               Inl err \<Rightarrow> Failure 500 ''Failed to analyze repository''
             | Inr analysis \<Rightarrow> Ok (fullName r, analysis))"
    using analyzeRepositoryCode_eq [of rid st r repos gh tree apiKey post] by blast
  have 4: "rid \<noteq> [] \<and> getRepository st rid = Some r
        \<and> repos = ''https://api.github.com/repos/''
              @ show_undefined (nth_opt (split_on CHR ''/'' (fullName r)) 0) @ ''/''
              @ show_undefined (nth_opt (split_on CHR ''/'' (fullName r)) 1)
        \<and> get_tree gh (repos @ ''/git/trees/HEAD?recursive=1'') = Inr tree
        \<and> k \<noteq> []
        \<and> post k (userPrompt (dirStructureOf tree)
                    (concat (map (\<lambda>file. case get_file gh (repos @ ''/contents/'' @ path file) of
                                             Some fileContent \<Rightarrow> fileSample (path file) fileContent
                                           | None \<Rightarrow> [])
                                (codeFilesOf tree)))
                    ''entire repository'') = Fulfilled (Some (a # others))
      \<longrightarrow> analyzeRepositoryCode gh (Some k) post st (Some rid) = Ok (fullName r, a)"
  proof (intro impI, elim conjE)
    assume h: "rid \<noteq> []" "getRepository st rid = Some r"
      "repos = ''https://api.github.com/repos/''
              @ show_undefined (nth_opt (split_on CHR ''/'' (fullName r)) 0) @ ''/''
              @ show_undefined (nth_opt (split_on CHR ''/'' (fullName r)) 1)"
      "get_tree gh (repos @ ''/git/trees/HEAD?recursive=1'') = Inr tree"
      and k: "k \<noteq> []"
      and p: "post k (userPrompt (dirStructureOf tree)
                    (concat (map (\<lambda>file. case get_file gh (repos @ ''/contents/'' @ path file) of
                                             Some fileContent \<Rightarrow> fileSample (path file) fileContent
                                           | None \<Rightarrow> [])
                                (codeFilesOf tree)))
                    ''entire repository'') = Fulfilled (Some (a # others))"
    show "analyzeRepositoryCode gh (Some k) post st (Some rid) = Ok (fullName r, a)"
    proof -
      have "analyzeCode (Some k) post (dirStructureOf tree)
                    (concat (map (\<lambda>file. case get_file gh (repos @ ''/contents/'' @ path file) of
                                             Some fileContent \<Rightarrow> fileSample (path file) fileContent
                                           | None \<Rightarrow> [])
                                (codeFilesOf tree)))
                    ''entire repository'' = Inr a"
        using k p by (rule analyzeCode_first_choice)
      then show ?thesis unfolding analyzeRepositoryCode_eq [OF h] by simp
    qed
  qed
  have 5: "importantFileExtensions
        = [''.js'', ''.ts'', ''.jsx'', ''.tsx'', ''.py'', ''.java'', ''.php'', ''.go'', ''.rb'', ''.c'', ''.cpp'']"
    by (simp add: importantFileExtensions_def)
  have 6: "ch \<notin> set ''ABCDEFGHIJKLMNOPQRSTUVWXYZ'' \<longrightarrow> ascii_lower ch = ch"
    using ascii_lower_other by blast
  have 7: "length c \<le> 1000 \<longrightarrow>
        fileSample p c = ''\<newline>File: '' @ p @ ''\<newline>```\<newline>'' @ c @ ''\<newline>```\<newline>''"
    using fileSample_short by blast
  have 8: "length c > 1000 \<longrightarrow>
        fileSample p c = ''\<newline>File: '' @ p @ ''\<newline>```\<newline>'' @ take 1000 c @ ''...'' @ ''\<newline>```\<newline>''"
    using fileSample_long by blast
  have 9: "fetch (base @ path f) = None \<longrightarrow>
        sampleLoop fetch base acc (xs @ f # ys) = sampleLoop fetch base acc (xs @ ys)"
    using sampleLoop_skip by blast
  from codeFilesOf_length [of tree] codeFilesOf_first [of tree] isCodeFile_iff [of entry] 5
    ascii_lower_letters 6 1 7 8 sampleLoop_concat [of fetch base acc files] 9 2 3 4
  show ?thesis by (intro conjI)
qed

theorem sampling_selects_and_truncates_witness:
  "codeFilesOf example_tree =
     [\<lparr> item_type = ''blob'', path = ''src/a.js'' \<rparr>,
      \<lparr> item_type = ''blob'', path = ''src/c.ts'' \<rparr>,
      \<lparr> item_type = ''blob'', path = ''d.py'' \<rparr>,
      \<lparr> item_type = ''blob'', path = ''e.go'' \<rparr>,
      \<lparr> item_type = ''blob'', path = ''f.rb'' \<rparr>]
   \<and> length (filter isCodeFile example_tree) = 6
   \<and> fileSample ''a'' (replicate 1001 CHR ''z'')
       = ''\<newline>File: a\<newline>```\<newline>'' @ replicate 1000 CHR ''z'' @ ''...\<newline>```\<newline>''
   \<and> fileSample ''a'' ''short'' = ''\<newline>File: a\<newline>```\<newline>short\<newline>```\<newline>''
   \<and> example_get_file (''u/'' @ ''d.py'') = None
   \<and> sampleLoop example_get_file ''u/'' ''seed'' (codeFilesOf example_tree)
       = ''seed''
         @ ''\<newline>File: src/a.js\<newline>```\<newline>x = 1\<newline>```\<newline>''
         @ ''\<newline>File: src/c.ts\<newline>```\<newline>x = 1\<newline>```\<newline>''
         @ ''\<newline>File: e.go\<newline>```\<newline>x = 1\<newline>```\<newline>''
         @ ''\<newline>File: f.rb\<newline>```\<newline>x = 1\<newline>```\<newline>''
   \<and> getRepository example_storage ''1296269'' = Some example_repository
   \<and> analyzeRepositoryCode example_github (Some ''key'') echo_post example_storage (Some ''1296269'')
       = Ok (''octocat/Hello-World'',
             userPrompt
               (''directory: src\<newline>file: src/a.js\<newline>file: node_modules/x.js\<newline>''
                @ ''file: src/b.MIN.js\<newline>file: vendor/c.py\<newline>file: README.md\<newline>''
                @ ''file: src/c.ts\<newline>file: d.py\<newline>file: e.go\<newline>file: f.rb\<newline>file: g.c'')
               (''\<newline>File: src/a.js\<newline>```\<newline>x = 1\<newline>```\<newline>''
                @ ''\<newline>File: src/c.ts\<newline>```\<newline>x = 1\<newline>```\<newline>''
                @ ''\<newline>File: e.go\<newline>```\<newline>x = 1\<newline>```\<newline>''
                @ ''\<newline>File: f.rb\<newline>```\<newline>x = 1\<newline>```\<newline>'')
               ''entire repository'')
   \<and> analyzeRepositoryCode example_github (Some ''key'') example_post example_storage (Some ''1296269'')
       = Ok (''octocat/Hello-World'', ''## SUMMARY'')"
proof -
  have cf: "codeFilesOf example_tree =
     [\<lparr> item_type = ''blob'', path = ''src/a.js'' \<rparr>,
      \<lparr> item_type = ''blob'', path = ''src/c.ts'' \<rparr>,
      \<lparr> item_type = ''blob'', path = ''d.py'' \<rparr>,
      \<lparr> item_type = ''blob'', path = ''e.go'' \<rparr>,
      \<lparr> item_type = ''blob'', path = ''f.rb'' \<rparr>]"
    by (simp add: codeFilesOf_def example_tree_def isCodeFile_def importantFileExtensions_def
        endsWith_def matchesMinified_def ascii_lower_def)
  have six: "length (filter isCodeFile example_tree) = 6"
    by (simp add: example_tree_def isCodeFile_def importantFileExtensions_def
        endsWith_def matchesMinified_def ascii_lower_def)
  have none: "example_get_file (''u/'' @ ''d.py'') = None"
    by (simp add: example_get_file_def endsWith_def)
  have fn: "fullName example_repository = ''octocat/Hello-World''"
    by (simp add: example_repository_def repositoryData_def example_info_def)
  have st: "getRepository example_storage ''1296269'' = Some example_repository"
    by (simp add: getRepository_def example_storage_def)
  have repos: "''https://api.github.com/repos/octocat/Hello-World''
      = ''https://api.github.com/repos/''
          @ show_undefined (nth_opt (split_on CHR ''/'' (fullName example_repository)) 0) @ ''/''
          @ show_undefined (nth_opt (split_on CHR ''/'' (fullName example_repository)) 1)"
    by (simp add: fn nth_opt_def show_undefined_def)
  have tr: "get_tree example_github (''https://api.github.com/repos/octocat/Hello-World'' @ ''/git/trees/HEAD?recursive=1'')
      = Inr example_tree"
    by (simp add: example_github_def)
  have dir: "dirStructureOf example_tree =
      ''directory: src\<newline>file: src/a.js\<newline>file: node_modules/x.js\<newline>''
      @ ''file: src/b.MIN.js\<newline>file: vendor/c.py\<newline>file: README.md\<newline>''
      @ ''file: src/c.ts\<newline>file: d.py\<newline>file: e.go\<newline>file: f.rb\<newline>file: g.c''"
    by (simp add: dirStructureOf_def example_tree_def)
  have sample: "concat (map (\<lambda>file. case get_file example_github
                   (''https://api.github.com/repos/octocat/Hello-World'' @ ''/contents/'' @ path file) of
                     Some fileContent \<Rightarrow> fileSample (path file) fileContent
                   | None \<Rightarrow> [])
              (codeFilesOf example_tree))
      = ''\<newline>File: src/a.js\<newline>```\<newline>x = 1\<newline>```\<newline>''
        @ ''\<newline>File: src/c.ts\<newline>```\<newline>x = 1\<newline>```\<newline>''
        @ ''\<newline>File: e.go\<newline>```\<newline>x = 1\<newline>```\<newline>''
        @ ''\<newline>File: f.rb\<newline>```\<newline>x = 1\<newline>```\<newline>''"
    unfolding cf by (simp add: example_github_def example_get_file_def endsWith_def fileSample_def)
  note t = sampling_selects_and_truncates [where tree = example_tree
      and c = "replicate 1001 CHR ''z''" and p = "''a''"
      and fetch = example_get_file and base = "''u/''" and acc = "''seed''"
      and files = "codeFilesOf example_tree"
      and rid = "''1296269''" and st = example_storage and r = example_repository
      and repos = "''https://api.github.com/repos/octocat/Hello-World''"
      and gh = example_github and apiKey = "Some ''key''" and post = echo_post]
  note t9 = t [THEN conjunct2, THEN conjunct2, THEN conjunct2, THEN conjunct2, THEN conjunct2,
      THEN conjunct2, THEN conjunct2, THEN conjunct2, THEN conjunct1]
  note t10 = t [THEN conjunct2, THEN conjunct2, THEN conjunct2, THEN conjunct2, THEN conjunct2,
      THEN conjunct2, THEN conjunct2, THEN conjunct2, THEN conjunct2, THEN conjunct1]
  note t13 = t [THEN conjunct2, THEN conjunct2, THEN conjunct2, THEN conjunct2, THEN conjunct2,
      THEN conjunct2, THEN conjunct2, THEN conjunct2, THEN conjunct2, THEN conjunct2,
      THEN conjunct2, THEN conjunct2, THEN conjunct1]
  have len: "length (replicate 1001 CHR ''z'') > 1000" by simp
  have long: "fileSample ''a'' (replicate 1001 CHR ''z'')
       = ''\<newline>File: a\<newline>```\<newline>'' @ replicate 1000 CHR ''z'' @ ''...\<newline>```\<newline>''"
    using t9 [THEN mp, OF len] by simp
  have short: "fileSample ''a'' ''short'' = ''\<newline>File: a\<newline>```\<newline>short\<newline>```\<newline>''"
    by (simp add: fileSample_def)
  have loop: "sampleLoop example_get_file ''u/'' ''seed'' (codeFilesOf example_tree)
       = ''seed''
         @ ''\<newline>File: src/a.js\<newline>```\<newline>x = 1\<newline>```\<newline>''
         @ ''\<newline>File: src/c.ts\<newline>```\<newline>x = 1\<newline>```\<newline>''
         @ ''\<newline>File: e.go\<newline>```\<newline>x = 1\<newline>```\<newline>''
         @ ''\<newline>File: f.rb\<newline>```\<newline>x = 1\<newline>```\<newline>''"
    unfolding t10 unfolding cf by (simp add: example_get_file_def endsWith_def fileSample_def)
  have pre: "''1296269'' \<noteq> [] \<and> getRepository example_storage ''1296269'' = Some example_repository
        \<and> ''https://api.github.com/repos/octocat/Hello-World'' = ''https://api.github.com/repos/''
              @ show_undefined (nth_opt (split_on CHR ''/'' (fullName example_repository)) 0) @ ''/''
              @ show_undefined (nth_opt (split_on CHR ''/'' (fullName example_repository)) 1)
        \<and> get_tree example_github (''https://api.github.com/repos/octocat/Hello-World'' @ ''/git/trees/HEAD?recursive=1'')
            = Inr example_tree"
    using st repos tr by (intro conjI) simp_all
  have echo: "analyzeRepositoryCode example_github (Some ''key'') echo_post example_storage (Some ''1296269'')
       = Ok (''octocat/Hello-World'',
             userPrompt
               (''directory: src\<newline>file: src/a.js\<newline>file: node_modules/x.js\<newline>''
                @ ''file: src/b.MIN.js\<newline>file: vendor/c.py\<newline>file: README.md\<newline>''
                @ ''file: src/c.ts\<newline>file: d.py\<newline>file: e.go\<newline>file: f.rb\<newline>file: g.c'')
               (''\<newline>File: src/a.js\<newline>```\<newline>x = 1\<newline>```\<newline>''
                @ ''\<newline>File: src/c.ts\<newline>```\<newline>x = 1\<newline>```\<newline>''
                @ ''\<newline>File: e.go\<newline>```\<newline>x = 1\<newline>```\<newline>''
                @ ''\<newline>File: f.rb\<newline>```\<newline>x = 1\<newline>```\<newline>'')
               ''entire repository'')"
    unfolding t13 [THEN mp, OF pre] dir sample
    by (simp add: analyzeCode_def completionTry_def echo_post_def fn)
  have fixed: "analyzeRepositoryCode example_github (Some ''key'') example_post example_storage (Some ''1296269'')
       = Ok (''octocat/Hello-World'', ''## SUMMARY'')"
    unfolding analyzeRepositoryCode_eq [OF pre [THEN conjunct1] pre [THEN conjunct2, THEN conjunct1]
        pre [THEN conjunct2, THEN conjunct2, THEN conjunct1] pre [THEN conjunct2, THEN conjunct2, THEN conjunct2]]
    by (simp add: analyzeCode_def completionTry_def example_post_def fn)
  from cf six long short none loop st echo fixed show ?thesis by (intro conjI)
qed

section \<open>Completion Provider: an empty list of choices\<close>

text \<open>
  C2. At a response whose list of choices is empty, the \<open>try\<close> block throws the error "No
  response from OpenRouter API", and the \<open>catch\<close> block around it replaces that error: the
  caller receives "Failed to analyze code with OpenRouter", the same error as for a request
  that was rejected without a response.
\<close>

theorem analyzeCode_empty_choices:
  "completionTry (Fulfilled (Some [])) = Inl (PlainError ''No response from OpenRouter API'')
   \<and> analyzeCode (Some ''key'') (\<lambda>k u. Fulfilled (Some [])) ''file: a.js'' ''const a = 1'' ''a.js''
       = Inl (Error ''Failed to analyze code with OpenRouter'')
   \<and> analyzeCode (Some ''key'') (\<lambda>k u. Rejected (AxiosError None ''Network Error'')) ''file: a.js'' ''const a = 1'' ''a.js''
       = Inl (Error ''Failed to analyze code with OpenRouter'')
   \<and> analyzeCode (Some ''key'') (\<lambda>k u. Fulfilled None) ''file: a.js'' ''const a = 1'' ''a.js''
       = Inl (Error ''Failed to analyze code with OpenRouter'')"
  by (simp add: analyzeCode_def completionTry_def completionCatch_def)

section \<open>Commit activity\<close>

lemma slice_last_length: "length (slice_last n xs) = min (length xs) n"
  by (simp add: slice_last_def)

lemma commitActivityOf_weeks:
  "commitActivityOf e (Weeks ws) =
     map (\<lambda>w. \<lparr> month = nth_opt months (getMonth e (week w * 1000)), count = total w \<rparr>) (slice_last 7 ws)"
  by (simp add: commitActivityOf_def)

lemma commitActivityOf_other:
  "commitActivityOf e TruthyNonArray =
     map (\<lambda>index. \<lparr> month = nth_opt months (monthWeeksBack e index), count = 0 \<rparr>) [0..<7]"
  by (simp add: commitActivityOf_def)

lemma commitActivityOf_length: "length (commitActivityOf e (commitDataOf d)) \<le> 7"
  by (cases d) (simp_all add: commitDataOf_def commitActivityOf_def slice_last_length)

lemma fetchRepositoryData_Inr:
  assumes "fetchRepositoryData e gh owner repo = (Inr r, n)"
  obtains repoInfo languagesData d where
    "get_repo gh (''https://api.github.com/repos/'' @ owner @ ''/'' @ repo) = Inr repoInfo"
    "get_languages gh (languages_url repoInfo) = Inr languagesData"
    "get_commit_activity gh (''https://api.github.com/repos/'' @ owner @ ''/'' @ repo @ ''/stats/commit_activity'') = Inr d"
    "r = repositoryData e repo repoInfo languagesData (commitDataOf d)" "n = 3"
  using assms unfolding fetchRepositoryData_def
  by (auto split: sum.splits)

lemma repositoryData_fields:
  "commitActivity (repositoryData e repo repoInfo languagesData cd) = commitActivityOf e cd"
  "languages (repositoryData e repo repoInfo languagesData cd) = languagesOf languagesData"
  "fullName (repositoryData e repo repoInfo languagesData cd) = full_name repoInfo"
  "repo_id (repositoryData e repo repoInfo languagesData cd) = string_of_nat (info_id repoInfo)"
  by (simp_all add: repositoryData_def)

text \<open>
  C1, as the code has it. The commit-activity list of every ingestion result has at most
  7 entries. When the provider's answer is an array of weekly buckets, the list has one
  entry for each of its last 7 buckets, in order and with the bucket's total as count: as
  many entries as the array has buckets when these are fewer than 7. When the answer is a
  truthy value that is no array, the list has 7 entries of count 0.
\<close>

theorem commitActivity_entries:
  assumes "fetchRepositoryData e gh owner repo = (Inr r, n)"
  shows "length (commitActivity r) \<le> 7
    \<and> (\<forall>ws. get_commit_activity gh (''https://api.github.com/repos/'' @ owner @ ''/'' @ repo @ ''/stats/commit_activity'') = Inr (Weeks ws)
          \<longrightarrow> length (commitActivity r) = min (length ws) 7
              \<and> map count (commitActivity r) = map total (slice_last 7 ws))
    \<and> (get_commit_activity gh (''https://api.github.com/repos/'' @ owner @ ''/'' @ repo @ ''/stats/commit_activity'') = Inr TruthyNonArray
          \<longrightarrow> length (commitActivity r) = 7 \<and> (\<forall>b \<in> set (commitActivity r). count b = 0))"
proof -
  from assms obtain repoInfo languagesData d where
    d: "get_commit_activity gh (''https://api.github.com/repos/'' @ owner @ ''/'' @ repo @ ''/stats/commit_activity'') = Inr d"
    and r: "r = repositoryData e repo repoInfo languagesData (commitDataOf d)"
    by (rule fetchRepositoryData_Inr)
  have ca: "commitActivity r = commitActivityOf e (commitDataOf d)"
    unfolding r by (rule repositoryData_fields)
  have 1: "length (commitActivity r) \<le> 7"
    unfolding ca by (rule commitActivityOf_length)
  have 2: "length (commitActivity r) = min (length ws) 7
              \<and> map count (commitActivity r) = map total (slice_last 7 ws)"
    if "d = Weeks ws" for ws
    unfolding ca that by (simp add: commitDataOf_def commitActivityOf_weeks slice_last_length comp_def)
  have 3: "length (commitActivity r) = 7 \<and> (\<forall>b \<in> set (commitActivity r). count b = 0)"
    if "d = TruthyNonArray"
    unfolding ca that by (simp add: commitDataOf_def commitActivityOf_other)
  show ?thesis using 1 2 3 d by simp
qed

lemma example_fetch:
  "fetchRepositoryData example_env example_github ''octocat'' ''Hello-World'' = (Inr example_repository, 3)"
  by (simp add: fetchRepositoryData_def example_github_def example_repository_def commitDataOf_def
      ascii_lower_def)

theorem commitActivity_entries_witness:
  "fetchRepositoryData example_env example_github ''octocat'' ''Hello-World'' = (Inr example_repository, 3)
   \<and> length (commitActivity example_repository) = 2
   \<and> map count (commitActivity example_repository) = [4, 2]
   \<and> length (commitActivity (repositoryData example_env ''Hello-World'' example_info
         [(''JavaScript'', 3), (''HTML'', 1)] TruthyNonArray)) = 7"
proof -
  have a: "get_commit_activity example_github
      (''https://api.github.com/repos/'' @ ''octocat'' @ ''/'' @ ''Hello-World'' @ ''/stats/commit_activity'')
      = Inr (Weeks [\<lparr> week = 1699142400, total = 4 \<rparr>, \<lparr> week = 1699747200, total = 2 \<rparr>])"
    by (simp add: example_github_def)
  have b: "fetchRepositoryData example_env
      (example_github \<lparr> get_commit_activity := (\<lambda>u. Inr TruthyNonArray) \<rparr>) ''octocat'' ''Hello-World''
      = (Inr (repositoryData example_env ''Hello-World'' example_info
         [(''JavaScript'', 3), (''HTML'', 1)] TruthyNonArray), 3)"
    by (simp add: fetchRepositoryData_def example_github_def commitDataOf_def ascii_lower_def)
  from commitActivity_entries [OF example_fetch] a
  have "length (commitActivity example_repository) = 2
      \<and> map count (commitActivity example_repository) = [4, 2]"
    by (simp add: slice_last_def)
  moreover from commitActivity_entries [OF b]
  have "length (commitActivity (repositoryData example_env ''Hello-World'' example_info
         [(''JavaScript'', 3), (''HTML'', 1)] TruthyNonArray)) = 7"
    by simp
  ultimately show ?thesis using example_fetch by simp
qed

theorem commitActivity_seven_counterexample:
  "fetchRepositoryData example_env example_github ''octocat'' ''Hello-World'' = (Inr example_repository, 3)
   \<and> length (commitActivity example_repository) = 2
   \<and> length (commitActivity example_repository) \<noteq> 7
   \<and> fetchRepositoryData example_env
        (example_github \<lparr> get_commit_activity := (\<lambda>u. Inr (Weeks [])) \<rparr>) ''octocat'' ''Hello-World''
      = (Inr (repositoryData example_env ''Hello-World'' example_info [(''JavaScript'', 3), (''HTML'', 1)] (Weeks [])), 3)
   \<and> commitActivity (repositoryData example_env ''Hello-World'' example_info
        [(''JavaScript'', 3), (''HTML'', 1)] (Weeks [])) = []"
proof -
  have "length (commitActivity example_repository) = 2"
    by (simp add: example_repository_def repositoryData_fields commitActivityOf_weeks slice_last_def)
  moreover have "fetchRepositoryData example_env
        (example_github \<lparr> get_commit_activity := (\<lambda>u. Inr (Weeks [])) \<rparr>) ''octocat'' ''Hello-World''
      = (Inr (repositoryData example_env ''Hello-World'' example_info [(''JavaScript'', 3), (''HTML'', 1)] (Weeks [])), 3)"
    by (simp add: fetchRepositoryData_def example_github_def commitDataOf_def ascii_lower_def)
  moreover have "commitActivity (repositoryData example_env ''Hello-World'' example_info
        [(''JavaScript'', 3), (''HTML'', 1)] (Weeks [])) = []"
    by (simp add: repositoryData_fields commitActivityOf_weeks slice_last_def)
  ultimately show ?thesis using example_fetch by simp
qed

section \<open>Language percentages\<close>

lemma foldl_add_nat: "foldl (\<lambda>acc bytes. acc + bytes) a xs = a + sum_list (xs::nat list)"
  by (induction xs arbitrary: a) simp_all

lemma totalBytes_sum: "totalBytes ld = sum_list (map snd ld)"
  by (simp add: totalBytes_def foldl_add_nat)

lemma divisor_max: "divisor t = max t 1"
  by (simp add: divisor_def max_def)

lemma divisor_pos: "0 < divisor t"
  by (simp add: divisor_def)

lemma percentage_languagesOf:
  "map percentage (languagesOf ld) = map (\<lambda>entry. real (snd entry) / real (max (totalBytes ld) 1) * 100) ld"
  by (simp add: languagesOf_def languageEntry_def divisor_max comp_def)

lemma percentage_nonneg: "l \<in> set (languagesOf ld) \<Longrightarrow> 0 \<le> percentage l"
  by (auto simp: languagesOf_def languageEntry_def)

lemma sum_list_scaled: "sum_list (map (\<lambda>entry. real (snd entry) / d * 100) ld) = real (sum_list (map snd ld)) / d * 100"
  by (induction ld) (simp_all add: add_divide_distrib distrib_right)

lemma percentage_sum:
  assumes "0 < totalBytes ld"
  shows "sum_list (map percentage (languagesOf ld)) = 100"
proof -
  have "max (totalBytes ld) 1 = totalBytes ld" using assms by simp
  then have "sum_list (map percentage (languagesOf ld))
      = real (sum_list (map snd ld)) / real (totalBytes ld) * 100"
    by (simp only: percentage_languagesOf sum_list_scaled)
  also have "\<dots> = real (totalBytes ld) / real (totalBytes ld) * 100"
    by (simp only: totalBytes_sum)
  also have "\<dots> = 100" using assms by simp
  finally show ?thesis .
qed

text \<open>
  C5. JavaScript numbers are taken as real numbers, so that "up to rounding" is exact
  here. The languages of the record are computed from the provider's byte map, one entry
  per language in its order; each percentage is \<open>bytes / max(totalBytes, 1) * 100\<close> with
  \<open>totalBytes\<close> the sum of the byte counts, the divisor is never zero, and no percentage is
  negative. When \<open>totalBytes\<close> is positive the percentages sum to 100; for an empty byte
  map the list is empty and its sum is 0.
\<close>

theorem language_percentages:
  "languages (repositoryData e repo repoInfo ld cd) = languagesOf ld
   \<and> map name (languagesOf ld) = map fst ld
   \<and> totalBytes ld = sum_list (map snd ld)
   \<and> map percentage (languagesOf ld)
       = map (\<lambda>entry. real (snd entry) / real (max (totalBytes ld) 1) * 100) ld
   \<and> divisor (totalBytes ld) = max (totalBytes ld) 1 \<and> 0 < divisor (totalBytes ld)
   \<and> (\<forall>l \<in> set (languagesOf ld). 0 \<le> percentage l)
   \<and> (0 < totalBytes ld \<longrightarrow> sum_list (map percentage (languagesOf ld)) = 100)
   \<and> (ld = [] \<longrightarrow> languagesOf ld = [] \<and> sum_list (map percentage (languagesOf ld)) = 0)"
proof -
  have "map name (languagesOf ld) = map fst ld"
    by (simp add: languagesOf_def languageEntry_def comp_def)
  moreover have "ld = [] \<longrightarrow> languagesOf ld = [] \<and> sum_list (map percentage (languagesOf ld)) = 0"
    by (simp add: languagesOf_def)
  ultimately show ?thesis
    using repositoryData_fields(2) [of e repo repoInfo ld cd] totalBytes_sum [of ld]
      percentage_languagesOf [of ld] divisor_max [of "totalBytes ld"] divisor_pos [of "totalBytes ld"]
      percentage_nonneg [of _ ld] percentage_sum [of ld]
    by blast
qed

theorem language_percentages_witness:
  "map percentage (languagesOf [(''JavaScript'', 3), (''HTML'', 1)]) = [75, 25]
   \<and> totalBytes [(''JavaScript'', 3), (''HTML'', 1)] = 4
   \<and> sum_list (map percentage (languagesOf [(''JavaScript'', 3), (''HTML'', 1)])) = 100
   \<and> languagesOf [] = []
   \<and> map color (languagesOf [(''JavaScript'', 3), (''Nim'', 1)]) = [''#f1e05a'', ''#808080'']"
proof -
  have t: "totalBytes [(''JavaScript'', 3), (''HTML'', 1)] = 4"
    by (simp add: totalBytes_def)
  have c: "map color (languagesOf [(''JavaScript'', 3), (''Nim'', 1)]) = [''#f1e05a'', ''#808080'']"
    by (simp add: languagesOf_def languageEntry_def languageColors_def)
  from language_percentages [of example_env "''Hello-World''" example_info "[(''JavaScript'', 3), (''HTML'', 1)]" Falsy]
  have "map percentage (languagesOf [(''JavaScript'', 3), (''HTML'', 1)]) = [75, 25]
     \<and> sum_list (map percentage (languagesOf [(''JavaScript'', 3), (''HTML'', 1)])) = 100"
    unfolding t by simp
  moreover from language_percentages [of example_env "''Hello-World''" example_info "[]" Falsy]
  have "languagesOf [] = []" by simp
  ultimately show ?thesis using t c by simp
qed

section \<open>The \<open>/api/analyze\<close> handler: extraction and cache\<close>











lemma find_map_set:
  "find P (map snd st) = None \<Longrightarrow> P v \<Longrightarrow> find P (map snd (map_set st k v)) = Some v"
  by (induction st) (auto split: if_splits)

lemma analyze_Ok:
  assumes "analyze e gh st (Some url) = (Ok r, st', n)" "ownerAndRepo url = (Some owner, Some repo)"
  shows "isUrl e url" "includes_str url ''github.com''" "owner \<noteq> []" "repo \<noteq> []"
    "(getRepositoryByFullName st (owner @ ''/'' @ repo) = Some r \<and> st' = st \<and> n = 0)
     \<or> (getRepositoryByFullName st (owner @ ''/'' @ repo) = None
        \<and> fetchRepositoryData e gh owner repo = (Inr r, n) \<and> st' = map_set st (repo_id r) r)"
  using assms
  by (auto simp: analyze_def invalidUrl_def axiosFailure_def createRepository_def
      split: if_splits option.splits sum.splits prod.splits axios_error.splits)

lemma example_repository_key:
  "repo_id example_repository = ''1296269''" "fullName example_repository = ''octocat/Hello-World''"
  by (simp_all add: example_repository_def repositoryData_fields example_info_def
      string_of_nat.simps digit_char_def)

lemma example_fetch_other_case:
  "fetchRepositoryData example_env example_github ''Octocat'' ''Hello-World'' = (Inr example_repository, 3)"
  by (simp add: fetchRepositoryData_def example_github_def example_repository_def commitDataOf_def
      ascii_lower_def)

lemma example_urls:
  "ownerAndRepo ''https://github.com/octocat/Hello-World'' = (Some ''octocat'', Some ''Hello-World'')"
  "ownerAndRepo ''https://github.com/octocat/Hello-World/'' = (Some ''octocat'', Some ''Hello-World'')"
  "ownerAndRepo ''https://github.com/Octocat/Hello-World'' = (Some ''Octocat'', Some ''Hello-World'')"
  "ownerAndRepo ''https://example.com/github.com/octocat/Hello-World'' = (Some ''octocat'', Some ''Hello-World'')"
  "ownerAndRepo ''https://github.com//'' = (Some ''github.com'', Some [])"
  by (simp_all add: ownerAndRepo_def stripTrailingSlash_def nth_opt_def Let_def)

lemma example_url_checks:
  "isUrl example_env ''https://github.com/octocat/Hello-World''"
  "isUrl example_env ''https://github.com/octocat/Hello-World/''"
  "isUrl example_env ''https://github.com/Octocat/Hello-World''"
  "isUrl example_env ''https://example.com/github.com/octocat/Hello-World''"
  "isUrl example_env ''https://github.com//''"
  "isUrl example_env ''https://gitlab.com/octocat/Hello-World''"
  "includes_str ''https://github.com/octocat/Hello-World'' ''github.com''"
  "includes_str ''https://github.com/octocat/Hello-World/'' ''github.com''"
  "includes_str ''https://github.com/Octocat/Hello-World'' ''github.com''"
  "includes_str ''https://example.com/github.com/octocat/Hello-World'' ''github.com''"
  "includes_str ''https://github.com//'' ''github.com''"
  "\<not> includes_str ''https://gitlab.com/octocat/Hello-World'' ''github.com''"
  by (simp_all add: example_env_def)

lemma example_first_ingest:
  "analyze example_env example_github [] (Some ''https://github.com/octocat/Hello-World'')
     = (Ok example_repository, example_storage, 3)"
  by (simp add: analyze_def example_urls example_url_checks getRepositoryByFullName_def
      example_fetch createRepository_def example_repository_key example_storage_def)




lemma map_set_member: "v \<in> set (map snd (map_set st k v))"
  by (induction st k v rule: map_set.induct) auto

lemma find_exists:
  "x \<in> set xs \<Longrightarrow> P x \<Longrightarrow> \<exists>y. find P xs = Some y \<and> P y \<and> y \<in> set xs"
  by (induction xs) auto

lemma distinct_map_eq:
  "distinct (map f xs) \<Longrightarrow> x \<in> set xs \<Longrightarrow> y \<in> set xs \<Longrightarrow> f x = f y \<Longrightarrow> x = y"
  by (auto simp: distinct_map dest: inj_onD)

lemma analyze_Ok_cached:
  assumes "analyze e gh st (Some url) = (Ok r, st', n)"
  shows "r \<in> set (map snd st')"
proof -
  obtain ow rp where seg: "ownerAndRepo url = (ow, rp)" by (cases "ownerAndRepo url")
  with assms obtain owner repo where "ow = Some owner" "rp = Some repo"
    by (cases ow; cases rp) (auto simp: analyze_def invalidUrl_def split: if_splits)
  with seg have "ownerAndRepo url = (Some owner, Some repo)" by simp
  from analyze_Ok(5) [OF assms this] show ?thesis
  proof
    assume "getRepositoryByFullName st (owner @ ''/'' @ repo) = Some r \<and> st' = st \<and> n = 0"
    then have "find (\<lambda>x. fullName x = owner @ ''/'' @ repo) (map snd st') = Some r"
      by (simp add: getRepositoryByFullName_def)
    then show ?thesis unfolding find_Some_iff by (metis nth_mem)
  next
    assume "getRepositoryByFullName st (owner @ ''/'' @ repo) = None
        \<and> fetchRepositoryData e gh owner repo = (Inr r, n) \<and> st' = map_set st (repo_id r) r"
    then show ?thesis by (simp only: map_set_member)
  qed
qed

lemma analyze_hit:
  assumes "isUrl e url" "includes_str url ''github.com''"
    and "ownerAndRepo url = (Some owner, Some repo)" "owner \<noteq> []" "repo \<noteq> []"
    and "getRepositoryByFullName st (owner @ ''/'' @ repo) = Some r"
  shows "analyze e gh st (Some url) = (Ok r, st, 0)"
  unfolding analyze_def using assms by simp

lemma analyze_cases:
  assumes "analyze e gh st u = (resp, st2, n)"
  shows "(st2 = st \<and> (\<forall>r3. resp = Ok r3 \<longrightarrow> n = 0))
     \<or> (\<exists>rd. resp = Ok rd \<and> n = 3 \<and> st2 = map_set st (repo_id rd) rd)"
proof (cases u)
  case None
  with assms show ?thesis by (auto simp: analyze_def)
next
  case (Some url)
  show ?thesis
  proof (cases "isUrl e url \<and> includes_str url ''github.com''")
    case False
    with assms Some show ?thesis by (auto simp: analyze_def split: if_splits)
  next
    case True
    obtain ow rp where seg: "ownerAndRepo url = (ow, rp)" by (cases "ownerAndRepo url")
    show ?thesis
    proof (cases "\<exists>owner repo. ow = Some owner \<and> rp = Some repo \<and> owner \<noteq> [] \<and> repo \<noteq> []")
      case False
      with assms Some True seg show ?thesis
        by (cases ow; cases rp) (auto simp: analyze_def invalidUrl_def split: if_splits)
    next
      case ex: True
      then obtain owner repo where o: "ow = Some owner" "rp = Some repo" "owner \<noteq> []" "repo \<noteq> []"
        by blast
      show ?thesis
      proof (cases "getRepositoryByFullName st (owner @ ''/'' @ repo)")
        case (Some existing)
        with assms \<open>u = Some url\<close> True seg o show ?thesis by (simp add: analyze_def)
      next
        case None
        obtain res calls where f: "fetchRepositoryData e gh owner repo = (res, calls)"
          by (cases "fetchRepositoryData e gh owner repo")
        show ?thesis
        proof (cases res)
          case (Inl err)
          with assms \<open>u = Some url\<close> True seg o None f show ?thesis
            by (cases err) (auto simp: analyze_def axiosFailure_def)
        next
          case (Inr rd)
          with f have "calls = 3" by (auto elim: fetchRepositoryData_Inr)
          with assms \<open>u = Some url\<close> True seg o None f Inr
          have "resp = Ok rd \<and> n = 3 \<and> st2 = map_set st (repo_id rd) rd"
            by (auto simp: analyze_def createRepository_def)
          then show ?thesis by blast
        qed
      qed
    qed
  qed
qed

lemma cacheKeyed_map_set: "cacheKeyed st \<Longrightarrow> cacheKeyed (map_set st (repo_id v) v)"
  unfolding cacheKeyed_def by (induction st "repo_id v" v rule: map_set.induct) auto

lemma cacheKeyed_analyze:
  "cacheKeyed st \<Longrightarrow> analyze e gh st u = (resp, st2, n) \<Longrightarrow> cacheKeyed st2"
  using analyze_cases [of e gh st u resp st2 n] by (auto simp: cacheKeyed_map_set)

lemma find_map_set_other:
  "cacheKeyed st \<Longrightarrow> find P (map snd st) = Some r \<Longrightarrow> k \<noteq> repo_id r \<Longrightarrow> \<not> P v \<Longrightarrow>
   find P (map snd (map_set st k v)) = Some r"
  unfolding cacheKeyed_def by (induction st k v rule: map_set.induct) (auto split: if_splits)

lemma find_Some_holds: "find P xs = Some x \<Longrightarrow> P x"
  by (induction xs) (auto split: if_splits)

lemma run_keeps_record:
  assumes "cacheKeyed st" "getRepositoryByFullName st F = Some r" "otherRepositories r reqs st"
  shows "getRepositoryByFullName (ingestAll reqs st) F = Some r"
  using assms
proof (induction reqs arbitrary: st)
  case Nil
  then show ?case by simp
next
  case (Cons req reqs)
  obtain e gh u where req: "req = (e, gh, u)" by (cases req)
  obtain resp st2 n where a: "analyze e gh st u = (resp, st2, n)" by (cases "analyze e gh st u")
  have F: "fullName r = F"
    using Cons.prems(2) find_Some_holds [of "\<lambda>repo. fullName repo = F" "map snd st" r]
    by (simp add: getRepositoryByFullName_def)
  have k2: "cacheKeyed st2" using Cons.prems(1) a by (rule cacheKeyed_analyze)
  have o2: "otherRepositories r reqs st2"
    using Cons.prems(3) req a by (cases resp) simp_all
  have l2: "getRepositoryByFullName st2 F = Some r"
    using analyze_cases [OF a]
  proof
    assume "st2 = st \<and> (\<forall>r3. resp = Ok r3 \<longrightarrow> n = 0)"
    with Cons.prems(2) show ?thesis by simp
  next
    assume "\<exists>rd. resp = Ok rd \<and> n = 3 \<and> st2 = map_set st (repo_id rd) rd"
    then obtain rd where rd: "resp = Ok rd" "n = 3" "st2 = map_set st (repo_id rd) rd" by blast
    with Cons.prems(3) req a have "repo_id rd \<noteq> repo_id r" "fullName rd \<noteq> fullName r" by simp_all
    with Cons.prems(1,2) F show ?thesis
      unfolding rd(3) getRepositoryByFullName_def by (intro find_map_set_other) simp_all
  qed
  have "ingestAll (req # reqs) st = ingestAll reqs st2" using req a by simp
  with Cons.IH [OF k2 l2 o2] show ?case by simp
qed

text \<open>
  C3, as the code has it. An ingest of a URL succeeds on a cache in which every record is
  stored under its id, and the record it returns carries as \<open>fullName\<close> the text
  "owner/name" extracted from the URL. Then, after any run of further requests that fail,
  are answered from the cache, or fetch records of other repositories (another id and
  another \<open>fullName\<close>), an ingest of a URL with the same owner and name makes no request
  to the provider, returns that record and leaves the cache as it is.
\<close>

theorem second_ingest_cached:
  assumes "cacheKeyed st"
    and "analyze e gh st (Some url) = (Ok r, st', n)"
    and "ownerAndRepo url = (Some owner, Some repo)"
    and "fullName r = owner @ ''/'' @ repo"
    and "otherRepositories r reqs st'"
    and "ownerAndRepo url2 = (Some owner, Some repo)"
    and "isUrl e2 url2" "includes_str url2 ''github.com''"
  shows "analyze e2 gh2 (ingestAll reqs st') (Some url2) = (Ok r, ingestAll reqs st', 0)"
proof -
  note ok = analyze_Ok [OF assms(2,3)]
  have first: "getRepositoryByFullName st' (owner @ ''/'' @ repo) = Some r"
    using ok(5)
  proof
    assume "getRepositoryByFullName st (owner @ ''/'' @ repo) = Some r \<and> st' = st \<and> n = 0"
    then show ?thesis by simp
  next
    assume m: "getRepositoryByFullName st (owner @ ''/'' @ repo) = None
        \<and> fetchRepositoryData e gh owner repo = (Inr r, n) \<and> st' = map_set st (repo_id r) r"
    then have "find (\<lambda>x. fullName x = owner @ ''/'' @ repo) (map snd st) = None"
      by (simp add: getRepositoryByFullName_def)
    then have "find (\<lambda>x. fullName x = owner @ ''/'' @ repo) (map snd (map_set st (repo_id r) r)) = Some r"
      using assms(4) by (rule find_map_set)
    with m show ?thesis by (simp add: getRepositoryByFullName_def)
  qed
  have keyed: "cacheKeyed st'" using assms(1,2) by (rule cacheKeyed_analyze)
  have later: "getRepositoryByFullName (ingestAll reqs st') (owner @ ''/'' @ repo) = Some r"
    using keyed first assms(5) by (rule run_keeps_record)
  show ?thesis
    using assms(7,8,6) ok(3,4) later by (rule analyze_hit)
qed

lemma spoon_key:
  "repo_id spoon_repository = ''1300192''" "fullName spoon_repository = ''octocat/Spoon-Knife''"
  by (simp_all add: spoon_repository_def spoon_info_def repositoryData_fields example_info_def
      string_of_nat.simps digit_char_def)

lemma spoon_ingest:
  "analyze example_env spoon_github example_storage (Some ''https://github.com/octocat/Spoon-Knife'')
     = (Ok spoon_repository, example_storage @ [(''1300192'', spoon_repository)], 3)"
proof -
  have seg: "ownerAndRepo ''https://github.com/octocat/Spoon-Knife'' = (Some ''octocat'', Some ''Spoon-Knife'')"
    by (simp add: ownerAndRepo_def stripTrailingSlash_def nth_opt_def Let_def)
  have accepted: "isUrl example_env ''https://github.com/octocat/Spoon-Knife''"
    "includes_str ''https://github.com/octocat/Spoon-Knife'' ''github.com''"
    by (simp_all add: example_env_def)
  have fetch: "fetchRepositoryData example_env spoon_github ''octocat'' ''Spoon-Knife''
      = (Inr spoon_repository, 3)"
    by (simp add: fetchRepositoryData_def spoon_github_def example_github_def spoon_repository_def
        commitDataOf_def)
  show ?thesis
    by (simp add: analyze_def seg accepted getRepositoryByFullName_def fetch createRepository_def
        example_repository_key spoon_key example_storage_def)
qed

lemma example_rejected:
  "analyze example_env example_github st (Some ''https://gitlab.com/octocat/Hello-World'')
     = (Failure 400 ''URL must be a GitHub repository'', st, 0)"
  by (simp add: analyze_def example_url_checks)

lemma example_hit:
  assumes "isUrl e u" "includes_str u ''github.com''"
    and "ownerAndRepo u = (Some ''octocat'', Some ''Hello-World'')"
  shows "analyze e gh (example_storage @ more_entries) (Some u)
     = (Ok example_repository, example_storage @ more_entries, 0)"
proof -
  have l: "getRepositoryByFullName (example_storage @ more_entries) (''octocat'' @ ''/'' @ ''Hello-World'')
      = Some example_repository"
    by (simp add: getRepositoryByFullName_def example_storage_def example_repository_key)
  have o: "''octocat'' \<noteq> []" "''Hello-World'' \<noteq> []" by simp_all
  from assms o l show ?thesis by (rule analyze_hit)
qed

theorem second_ingest_cached_witness:
  "cacheKeyed []
   \<and> analyze example_env example_github [] (Some ''https://github.com/octocat/Hello-World'')
     = (Ok example_repository, example_storage, 3)
   \<and> fullName example_repository = ''octocat'' @ ''/'' @ ''Hello-World''
   \<and> otherRepositories example_repository
        [(example_env, example_github, Some ''https://gitlab.com/octocat/Hello-World''),
         (example_env, spoon_github, Some ''https://github.com/octocat/Spoon-Knife''),
         (later_env, example_github, Some ''https://github.com/octocat/Hello-World'')]
        example_storage
   \<and> ingestAll
        [(example_env, example_github, Some ''https://gitlab.com/octocat/Hello-World''),
         (example_env, spoon_github, Some ''https://github.com/octocat/Spoon-Knife''),
         (later_env, example_github, Some ''https://github.com/octocat/Hello-World'')]
        example_storage
      = example_storage @ [(''1300192'', spoon_repository)]
   \<and> analyze later_env example_github (example_storage @ [(''1300192'', spoon_repository)])
        (Some ''https://github.com/octocat/Hello-World/'')
     = (Ok example_repository, example_storage @ [(''1300192'', spoon_repository)], 0)"
proof -
  have k: "cacheKeyed []" by (simp add: cacheKeyed_def)
  have fn: "fullName example_repository = ''octocat'' @ ''/'' @ ''Hello-World''"
    by (simp add: example_repository_key)
  have laccepted: "isUrl later_env ''https://github.com/octocat/Hello-World''"
    "isUrl later_env ''https://github.com/octocat/Hello-World/''"
    by (simp_all add: later_env_def example_env_def)
  have hit: "analyze later_env example_github (example_storage @ [(''1300192'', spoon_repository)])
        (Some ''https://github.com/octocat/Hello-World'')
     = (Ok example_repository, example_storage @ [(''1300192'', spoon_repository)], 0)"
    using laccepted(1) example_url_checks(7) example_urls(1) by (rule example_hit)
  have others: "otherRepositories example_repository
        [(example_env, example_github, Some ''https://gitlab.com/octocat/Hello-World''),
         (example_env, spoon_github, Some ''https://github.com/octocat/Spoon-Knife''),
         (later_env, example_github, Some ''https://github.com/octocat/Hello-World'')]
        example_storage"
    by (simp add: example_rejected spoon_ingest hit spoon_key example_repository_key)
  have run: "ingestAll
        [(example_env, example_github, Some ''https://gitlab.com/octocat/Hello-World''),
         (example_env, spoon_github, Some ''https://github.com/octocat/Spoon-Knife''),
         (later_env, example_github, Some ''https://github.com/octocat/Hello-World'')]
        example_storage
      = example_storage @ [(''1300192'', spoon_repository)]"
    by (simp add: example_rejected spoon_ingest hit)
  from second_ingest_cached [OF k example_first_ingest example_urls(1) fn others example_urls(2)
      laccepted(2) example_url_checks(8), of example_github]
  have "analyze later_env example_github (example_storage @ [(''1300192'', spoon_repository)])
        (Some ''https://github.com/octocat/Hello-World/'')
     = (Ok example_repository, example_storage @ [(''1300192'', spoon_repository)], 0)"
    unfolding run .
  with k example_first_ingest fn others run show ?thesis by (intro conjI)
qed

theorem second_ingest_counterexample:
  "analyze example_env example_github [] (Some ''https://github.com/Octocat/Hello-World'')
     = (Ok example_repository, example_storage, 3)
   \<and> fullName example_repository = ''octocat/Hello-World''
   \<and> analyze example_env example_github example_storage (Some ''https://github.com/Octocat/Hello-World'')
     = (Ok example_repository, example_storage, 3)
   \<and> analyze example_env example_github [] (Some ''https://github.com/octocat/Hello-World'')
     = (Ok example_repository, example_storage, 3)
   \<and> analyze later_env example_github example_storage (Some ''https://github.com/Octocat/Hello-World'')
     = (Ok refetched_repository, [(''1296269'', refetched_repository)], 3)
   \<and> analyze later_env example_github [(''1296269'', refetched_repository)]
        (Some ''https://github.com/octocat/Hello-World'')
     = (Ok refetched_repository, [(''1296269'', refetched_repository)], 0)
   \<and> codeQuality example_repository = 82
   \<and> codeQuality refetched_repository = 70"
proof -
  have 1: "analyze example_env example_github [] (Some ''https://github.com/Octocat/Hello-World'')
     = (Ok example_repository, example_storage, 3)"
    "analyze example_env example_github example_storage (Some ''https://github.com/Octocat/Hello-World'')
     = (Ok example_repository, example_storage, 3)"
    by (simp_all add: analyze_def example_urls example_url_checks getRepositoryByFullName_def
        example_fetch_other_case createRepository_def example_repository_key example_storage_def)
  have key: "repo_id refetched_repository = ''1296269''" "fullName refetched_repository = ''octocat/Hello-World''"
    by (simp_all add: refetched_repository_def repositoryData_fields example_info_def
        string_of_nat.simps digit_char_def)
  have accepted: "isUrl later_env ''https://github.com/Octocat/Hello-World''"
    "isUrl later_env ''https://github.com/octocat/Hello-World''"
    by (simp_all add: later_env_def example_env_def)
  have fetch: "fetchRepositoryData later_env example_github ''Octocat'' ''Hello-World''
      = (Inr refetched_repository, 3)"
    by (simp add: fetchRepositoryData_def example_github_def refetched_repository_def commitDataOf_def
        ascii_lower_def)
  have 2: "analyze later_env example_github example_storage (Some ''https://github.com/Octocat/Hello-World'')
     = (Ok refetched_repository, [(''1296269'', refetched_repository)], 3)"
    by (simp add: analyze_def example_urls example_url_checks accepted getRepositoryByFullName_def
        fetch createRepository_def example_repository_key key example_storage_def)
  have 3: "analyze later_env example_github [(''1296269'', refetched_repository)]
        (Some ''https://github.com/octocat/Hello-World'')
     = (Ok refetched_repository, [(''1296269'', refetched_repository)], 0)"
    by (simp add: analyze_def example_urls example_url_checks accepted getRepositoryByFullName_def key)
  have 4: "codeQuality example_repository = 82" "codeQuality refetched_repository = 70"
    by (simp_all add: example_repository_def refetched_repository_def repositoryData_def
        example_env_def later_env_def)
  have 5: "fullName example_repository = ''octocat/Hello-World''"
    by (simp add: example_repository_key)
  from 1 5 example_first_ingest 2 3 4 show ?thesis by (intro conjI)
qed

section \<open>Document Generator\<close>

lemma appendLanguages_concat:
  "appendLanguages e c langs = c @ concat (map (languageLine e) langs)"
  unfolding appendLanguages_def
  by (induction langs arbitrary: c) (simp_all add: languageLine_def)

lemma appendCustomSections_concat:
  "appendCustomSections c sections = c @ customBlocks sections"
  unfolding appendCustomSections_def customBlocks_def
  by (induction sections arbitrary: c) (simp_all add: sectionBlock_def)

lemma generate_no_description:
  "description r = None \<Longrightarrow> generateReadmeContent e r opts = Inl TypeError"
  by (simp add: generateReadmeContent_def Let_def)

lemma generate_layout:
  assumes "description r = Some d"
  shows "generateReadmeContent e r opts =
     (case (if flag (includeUsage opts) then usageBlock e r else Inr []) of
        Inl ex \<Rightarrow> Inl ex
      | Inr u \<Rightarrow>
          Inr (frontMatter e r d
               @ optionalBlock (includeInstallation opts) (installationBlock r)
               @ u
               @ optionalBlock (includeContributing opts) contributingBlock
               @ optionalBlock (includeLicense opts) licenseBlock
               @ customBlocks (sectionsOf opts)
               @ footer e))"
  unfolding generateReadmeContent_def Let_def assms option.case
    appendLanguages_concat appendCustomSections_concat frontMatter_def optionalBlock_def show_null_def
  by (simp split: sum.splits)

lemma usageBlock_fails:
  "usageBlock e r = Inl TypeError \<longleftrightarrow> templatedLanguage (language r) \<and> repoNameOf r = None"
  by (auto simp: usageBlock_def usageExample_def Let_def templatedLanguage_def
      split: sum.splits option.splits if_splits)

lemma split_on_length: "length (split_on c s) = Suc (length (filter (\<lambda>x. x = c) s))"
  by (induction s) (auto split: list.splits)

lemma repoNameOf_None: "repoNameOf r = None \<longleftrightarrow> CHR ''/'' \<notin> set (fullName r)"
  by (auto simp: repoNameOf_def nth_opt_def split_on_length filter_empty_conv)

lemma customBlocks_append: "customBlocks (xs @ ys) = customBlocks xs @ customBlocks ys"
  by (simp add: customBlocks_def)

lemma customBlocks_Cons:
  "customBlocks (s # ys) = (if title s \<noteq> [] \<and> content s \<noteq> [] then sectionBlock s else []) @ customBlocks ys"
  by (simp add: customBlocks_def)

lemma customBlocks_drop:
  "title s = [] \<or> content s = [] \<Longrightarrow> customBlocks (xs @ s # ys) = customBlocks (xs @ ys)"
  by (auto simp: customBlocks_append customBlocks_Cons)


lemma generate_Inr:
  assumes "generateReadmeContent e r opts = Inr doc"
  obtains d u where "description r = Some d"
    "(if flag (includeUsage opts) then usageBlock e r else Inr []) = Inr u"
    "doc = frontMatter e r d
           @ optionalBlock (includeInstallation opts) (installationBlock r)
           @ u
           @ optionalBlock (includeContributing opts) contributingBlock
           @ optionalBlock (includeLicense opts) licenseBlock
           @ customBlocks (sectionsOf opts)
           @ footer e"
proof (cases "description r")
  case None
  with assms show ?thesis by (simp add: generate_no_description)
next
  case (Some d)
  show ?thesis
  proof (cases "if flag (includeUsage opts) then usageBlock e r else Inr []")
    case (Inl ex)
    with assms Some show ?thesis by (simp only: generate_layout [OF Some] sum.case) simp
  next
    case (Inr u)
    with assms Some have "doc = frontMatter e r d
           @ optionalBlock (includeInstallation opts) (installationBlock r)
           @ u
           @ optionalBlock (includeContributing opts) contributingBlock
           @ optionalBlock (includeLicense opts) licenseBlock
           @ customBlocks (sectionsOf opts)
           @ footer e"
      by (simp only: generate_layout [OF Some] sum.case) simp
    with Some Inr show ?thesis by (rule that)
  qed
qed

lemma example_repository_fields:
  "description example_repository = Some ''My first repository''"
  "language example_repository = Some ''JavaScript''"
  "map name (languages example_repository) = [''JavaScript'', ''HTML'']"
  "map percentage (languages example_repository) = [75, 25]"
  by (simp_all add: example_repository_def repositoryData_def example_info_def or_else_def
      languagesOf_def languageEntry_def totalBytes_def divisor_def)

lemma example_toFixed1: "toFixed1 example_env 75 = ''75.0''" "toFixed1 example_env 25 = ''25.0''"
  by (simp_all add: example_env_def string_of_int_def string_of_nat.simps digit_char_def)

lemma example_frontMatter:
  "frontMatter example_env example_repository ''My first repository'' =
     ''# Hello-World\<newline>\<newline>My first repository\<newline>\<newline>''
     @ ''![GitHub stars](https://img.shields.io/github/stars/octocat/Hello-World?style=social) ''
     @ ''![License](https://img.shields.io/github/license/octocat/Hello-World) ''
     @ ''![Last commit](https://img.shields.io/github/last-commit/octocat/Hello-World)\<newline>\<newline>''
     @ ''## Overview\<newline>\<newline>''
     @ ''This repository contains a JavaScript project that my first repository.\<newline>\<newline>''
     @ ''## Languages\<newline>\<newline>- JavaScript: 75.0%\<newline>- HTML: 25.0%\<newline>\<newline>''"
proof -
  have l: "concat (map (languageLine example_env) (languages example_repository))
      = ''- JavaScript: 75.0%\<newline>- HTML: 25.0%\<newline>''"
    using example_repository_fields(3,4)
    by (cases "languages example_repository" rule: list.exhaust;
        cases "tl (languages example_repository)" rule: list.exhaust)
      (auto simp: languageLine_def example_toFixed1)
  have n: "repoNameOf example_repository = Some ''Hello-World''"
    by (simp add: repoNameOf_def example_repository_key nth_opt_def)
  have lc: "toLowerCase example_env ''My first repository'' = ''my first repository''"
    by (simp add: example_env_def ascii_lower_def)
  show ?thesis
    unfolding frontMatter_def l n lc
    by (simp add: badges_def example_repository_key example_repository_fields show_undefined_def show_null_def)
qed

lemma example_notes_readme:
  "generateReadmeContent example_env example_repository notes_options = Inr example_readme"
  unfolding generate_layout [OF example_repository_fields(1)] example_frontMatter
  by (simp add: notes_options_def flag_def optionalBlock_def licenseBlock_def sectionsOf_def
      customBlocks_def sectionBlock_def footer_def example_env_def example_readme_def)

lemma example_usage:
  "usageBlock example_env example_repository \<noteq> Inl TypeError"
  "usageBlock example_env (example_repository \<lparr> fullName := ''Hello-World'' \<rparr>) = Inl TypeError"
  by (simp_all add: usageBlock_fails templatedLanguage_def repoNameOf_None
      example_repository_fields example_repository_key)

text \<open>
  C6, as the code has it. For every record and every options object the generator either
  returns a document or throws a \<open>TypeError\<close>. It throws exactly when the description is
  absent, or when the usage section is included, the primary language is JavaScript,
  TypeScript, Python or Java, and \<open>fullName\<close> has no slash and so no second segment. In
  every other case it returns a document that begins with the heading, description,
  badges, overview and language list; an empty description and an empty list of languages
  leave their places in it empty. Every record that ingestion makes has a description.
\<close>

theorem generate_failure_conditions:
  "(generateReadmeContent e r opts = Inl TypeError
      \<longleftrightarrow> description r = None
          \<or> (flag (includeUsage opts) \<and> templatedLanguage (language r) \<and> CHR ''/'' \<notin> set (fullName r)))
   \<and> ((\<exists>doc. generateReadmeContent e r opts = Inr doc)
      \<longleftrightarrow> description r \<noteq> None
          \<and> (\<not> flag (includeUsage opts) \<or> \<not> templatedLanguage (language r) \<or> CHR ''/'' \<in> set (fullName r)))
   \<and> (\<forall>doc d. generateReadmeContent e r opts = Inr doc \<and> description r = Some d
         \<longrightarrow> (\<exists>rest. doc = frontMatter e r d @ rest))
   \<and> (languages r = [] \<longrightarrow>
        frontMatter e r [] =
          ''# '' @ show_undefined (repoNameOf r) @ ''\<newline>\<newline>'' @ ''\<newline>\<newline>'' @ badges r
          @ ''## Overview\<newline>\<newline>''
          @ ''This repository contains a '' @ show_null (language r) @ '' project that '' @ toLowerCase e [] @ ''.\<newline>\<newline>''
          @ ''## Languages\<newline>\<newline>'' @ ''\<newline>'')
   \<and> description (repositoryData e' repo repoInfo ld cd) \<noteq> None"
proof -
  have fail: "generateReadmeContent e r opts = Inl TypeError
      \<longleftrightarrow> description r = None
          \<or> (flag (includeUsage opts) \<and> templatedLanguage (language r) \<and> CHR ''/'' \<notin> set (fullName r))"
  proof (cases "description r")
    case None
    then show ?thesis by (simp add: generate_no_description)
  next
    case (Some d)
    have "generateReadmeContent e r opts = Inl TypeError
        \<longleftrightarrow> flag (includeUsage opts) \<and> usageBlock e r = Inl TypeError"
      unfolding generate_layout [OF Some]
      by (cases "usageBlock e r") (auto split: sum.splits js_exception.splits)
    then show ?thesis using Some by (simp add: usageBlock_fails repoNameOf_None)
  qed
  have total: "(\<exists>doc. generateReadmeContent e r opts = Inr doc) \<longleftrightarrow> generateReadmeContent e r opts \<noteq> Inl TypeError"
    by (cases "generateReadmeContent e r opts") (auto intro: js_exception.exhaust)
  have front: "\<forall>doc d. generateReadmeContent e r opts = Inr doc \<and> description r = Some d
         \<longrightarrow> (\<exists>rest. doc = frontMatter e r d @ rest)"
  proof (intro allI impI)
    fix doc d
    assume a: "generateReadmeContent e r opts = Inr doc \<and> description r = Some d"
    then obtain d' u where "description r = Some d'"
      and "doc = frontMatter e r d'
           @ optionalBlock (includeInstallation opts) (installationBlock r)
           @ u
           @ optionalBlock (includeContributing opts) contributingBlock
           @ optionalBlock (includeLicense opts) licenseBlock
           @ customBlocks (sectionsOf opts)
           @ footer e"
      by (blast elim: generate_Inr)
    with a show "\<exists>rest. doc = frontMatter e r d @ rest" by auto
  qed
  have empty: "languages r = [] \<longrightarrow>
        frontMatter e r [] =
          ''# '' @ show_undefined (repoNameOf r) @ ''\<newline>\<newline>'' @ ''\<newline>\<newline>'' @ badges r
          @ ''## Overview\<newline>\<newline>''
          @ ''This repository contains a '' @ show_null (language r) @ '' project that '' @ toLowerCase e [] @ ''.\<newline>\<newline>''
          @ ''## Languages\<newline>\<newline>'' @ ''\<newline>''"
    by (simp add: frontMatter_def)
  have succeed: "(\<exists>doc. generateReadmeContent e r opts = Inr doc)
      \<longleftrightarrow> description r \<noteq> None
          \<and> (\<not> flag (includeUsage opts) \<or> \<not> templatedLanguage (language r) \<or> CHR ''/'' \<in> set (fullName r))"
    unfolding total fail by auto
  have ingested: "description (repositoryData e' repo repoInfo ld cd) \<noteq> None"
    by (simp add: repositoryData_def)
  from fail succeed front empty ingested show ?thesis by (intro conjI)
qed

theorem generate_failure_conditions_witness:
  "description example_repository = Some ''My first repository''
   \<and> flag (includeUsage default_options)
   \<and> templatedLanguage (language example_repository)
   \<and> CHR ''/'' \<in> set (fullName example_repository)
   \<and> generateReadmeContent example_env example_repository default_options \<noteq> Inl TypeError
   \<and> languages (example_repository \<lparr> languages := [] \<rparr>) = []
   \<and> generateReadmeContent example_env
        (example_repository \<lparr> fullName := ''Hello-World'', description := Some [], languages := [] \<rparr>)
        (default_options \<lparr> includeUsage := Some False \<rparr>) \<noteq> Inl TypeError
   \<and> generateReadmeContent example_env example_repository notes_options = Inr example_readme
   \<and> startsWith example_readme (frontMatter example_env example_repository ''My first repository'')"
proof -
  have 1: "generateReadmeContent example_env example_repository default_options \<noteq> Inl TypeError"
    using generate_failure_conditions [of example_env example_repository default_options]
    by (simp add: example_repository_fields example_repository_key)
  have 2: "generateReadmeContent example_env
        (example_repository \<lparr> fullName := ''Hello-World'', description := Some [], languages := [] \<rparr>)
        (default_options \<lparr> includeUsage := Some False \<rparr>) \<noteq> Inl TypeError"
    using generate_failure_conditions [of example_env
        "example_repository \<lparr> fullName := ''Hello-World'', description := Some [], languages := [] \<rparr>"
        "default_options \<lparr> includeUsage := Some False \<rparr>"]
    by (simp add: flag_def)
  have 3: "startsWith example_readme (frontMatter example_env example_repository ''My first repository'')"
    using generate_failure_conditions [of example_env example_repository notes_options]
      example_notes_readme example_repository_fields(1)
    unfolding startsWith_iff by blast
  show ?thesis
    using 1 2 3 example_notes_readme
    by (simp add: example_repository_fields example_repository_key default_options_def flag_def
        templatedLanguage_def)
qed

theorem generate_never_fails_counterexample:
  "generateReadmeContent example_env (example_repository \<lparr> description := None \<rparr>) default_options
     = Inl TypeError
   \<and> generateReadmeContent example_env (example_repository \<lparr> fullName := ''Hello-World'' \<rparr>) default_options
     = Inl TypeError"
proof -
  have "description (example_repository \<lparr> fullName := ''Hello-World'' \<rparr>) = Some ''My first repository''"
    by (simp add: example_repository_fields)
  from generate_layout [OF this]
  have "generateReadmeContent example_env (example_repository \<lparr> fullName := ''Hello-World'' \<rparr>) default_options
     = Inl TypeError"
    by (simp add: example_usage default_options_def flag_def)
  then show ?thesis by (simp add: generate_no_description)
qed

section \<open>Document Generator: headings of the second level\<close>


lemma skip_plain_end: "plainText u \<Longrightarrow> includes_str u (CHR ''#'' # CHR ''#'' # q) = False"
proof (induction u)
  case Nil
  then show ?case by simp
next
  case (Cons c cs)
  from Cons.prems have a: "\<not> startsWith (c # cs) ''##''" and b: "plainText cs"
    by (simp_all add: plainText_def)
  have "\<not> startsWith (c # cs) (CHR ''#'' # CHR ''#'' # q)"
    using a by (cases cs) auto
  with Cons.IH [OF b] show ?case by auto
qed

















text \<open>
  C10. A custom section whose title is empty or whose content is empty leaves no trace:
  the generator returns what it returns for the options without that entry.
\<close>

theorem empty_custom_section_omitted:
  assumes "title s = [] \<or> content s = []"
    and "customSections opts = Some (xs @ s # ys)"
  shows "generateReadmeContent e r opts
           = generateReadmeContent e r (opts \<lparr> customSections := Some (xs @ ys) \<rparr>)"
proof (cases "description r")
  case None
  then show ?thesis by (simp add: generate_no_description)
next
  case (Some d)
  have a: "sectionsOf opts = xs @ s # ys"
    using assms(2) by (simp add: sectionsOf_def)
  have b: "sectionsOf (opts \<lparr> customSections := Some (xs @ ys) \<rparr>) = xs @ ys"
    by (simp add: sectionsOf_def)
  show ?thesis
    unfolding generate_layout [OF Some] a b customBlocks_drop [OF assms(1)]
    by (simp split: sum.splits)
qed

theorem empty_custom_section_omitted_witness:
  "title \<lparr> title = '''', content = ''dropped'' \<rparr> = []
   \<and> customSections notes_options
       = Some ([\<lparr> title = ''Notes'', content = ''x'' \<rparr>] @ \<lparr> title = '''', content = ''dropped'' \<rparr> # [\<lparr> title = ''More'', content = ''y'' \<rparr>])
   \<and> generateReadmeContent example_env example_repository
        (notes_options \<lparr> customSections := Some ([\<lparr> title = ''Notes'', content = ''x'' \<rparr>] @ [\<lparr> title = ''More'', content = ''y'' \<rparr>]) \<rparr>)
       = Inr example_readme"
proof -
  have c: "customSections notes_options
       = Some ([\<lparr> title = ''Notes'', content = ''x'' \<rparr>] @ \<lparr> title = '''', content = ''dropped'' \<rparr> # [\<lparr> title = ''More'', content = ''y'' \<rparr>])"
    by (simp add: notes_options_def)
  have t: "title \<lparr> title = '''', content = ''dropped'' \<rparr> = [] \<or> content \<lparr> title = '''', content = ''dropped'' \<rparr> = []"
    by simp
  from empty_custom_section_omitted [OF t c, of example_env example_repository] example_notes_readme
  have "generateReadmeContent example_env example_repository
        (notes_options \<lparr> customSections := Some ([\<lparr> title = ''Notes'', content = ''x'' \<rparr>] @ [\<lparr> title = ''More'', content = ''y'' \<rparr>]) \<rparr>)
       = Inr example_readme"
    by simp
  with c show ?thesis by simp
qed

end
